theory Spec2Isabelle
  imports Complex_Main "HOL-Library.Sublist"
begin

section \<open>JavaScript strings\<close>

text \<open>
  The two route handlers of \<^verbatim>\<open>src/frontend/src/app/api/molecule\<close> are embedded:
  \<^verbatim>\<open>POST\<close> of \<^verbatim>\<open>resolve/route.ts\<close> (the resolution chain) and \<^verbatim>\<open>GET\<close> of
  \<^verbatim>\<open>sdf/route.ts\<close> (the structure file proxy).

  A JavaScript string is a sequence of 16-bit code units. A code unit is kept as its
  two bytes, the high one first; \<open>code\<close> is its number. A literal of the source is
  written \<open>utf16 ''...''\<close>. Header values and status texts are byte strings and stay of
  type \<^typ>\<open>string\<close>.
\<close>

datatype code_unit = Code_unit (high: char) (low: char)

type_synonym jsstring = "code_unit list"

definition code :: "code_unit \<Rightarrow> int" where
  "code u = 256 * of_char (high u) + of_char (low u)"

definition utf16 :: "string \<Rightarrow> jsstring" where
  "utf16 s = map (Code_unit (CHR 0x00)) s"

definition is_white_space :: "code_unit \<Rightarrow> bool" where
  \<comment> \<open>WhiteSpace and LineTerminator of ECMAScript.\<close>
  "is_white_space u \<longleftrightarrow>
     code u \<in> set [0x0009, 0x000A, 0x000B, 0x000C, 0x000D, 0x0020, 0x00A0, 0x1680,
                   0x2028, 0x2029, 0x202F, 0x205F, 0x3000, 0xFEFF]
     \<or> (0x2000 \<le> code u \<and> code u \<le> 0x200A)"

definition trim :: "jsstring \<Rightarrow> jsstring" where
  \<comment> \<open>\<^verbatim>\<open>String.prototype.trim\<close>: white space is removed at both ends.\<close>
  "trim s = rev (dropWhile is_white_space (rev (dropWhile is_white_space s)))"

definition string_includes :: "jsstring \<Rightarrow> jsstring \<Rightarrow> bool" where
  \<comment> \<open>\<^verbatim>\<open>s.includes(t)\<close>: \<open>t\<close> occurs in \<open>s\<close> as a contiguous run of code units.\<close>
  "string_includes s t \<longleftrightarrow> sublist t s"

text \<open>
  Surrogates: a high surrogate followed by a low one is one code point above \<open>0xFFFF\<close>;
  any other surrogate is a lone one. A string is well formed when it has no lone
  surrogate.
\<close>

definition is_high :: "code_unit \<Rightarrow> bool" where
  "is_high u \<longleftrightarrow> 0xD800 \<le> code u \<and> code u \<le> 0xDBFF"

definition is_low :: "code_unit \<Rightarrow> bool" where
  "is_low u \<longleftrightarrow> 0xDC00 \<le> code u \<and> code u \<le> 0xDFFF"

fun well_formed :: "jsstring \<Rightarrow> bool" where
  "well_formed [] = True"
| "well_formed [u] = (\<not> is_high u \<and> \<not> is_low u)"
| "well_formed (u # v # us) =
     (if is_high u then is_low v \<and> well_formed us
      else \<not> is_low u \<and> well_formed (v # us))"

definition uri_unreserved :: "code_unit \<Rightarrow> bool" where
  "uri_unreserved u \<longleftrightarrow>
     u \<in> set (utf16 (''ABCDEFGHIJKLMNOPQRSTUVWXYZabcdefghijklmnopqrstuvwxyz0123456789-_.!~*()''
                     @ [CHR 0x27]))"

definition hex_digit :: "int \<Rightarrow> code_unit" where
  "hex_digit n = utf16 ''0123456789ABCDEF'' ! nat (n mod 16)"

definition percent :: "int \<Rightarrow> jsstring" where
  "percent b = utf16 ''%'' @ [hex_digit (b div 16), hex_digit b]"

definition utf8 :: "int \<Rightarrow> int list" where
  \<comment> \<open>The bytes of a code point in UTF-8.\<close>
  "utf8 n =
     (if n < 0x80 then [n]
      else if n < 0x800 then [0xC0 + n div 0x40, 0x80 + n mod 0x40]
      else if n < 0x10000 then
        [0xE0 + n div 0x1000, 0x80 + n div 0x40 mod 0x40, 0x80 + n mod 0x40]
      else
        [0xF0 + n div 0x40000, 0x80 + n div 0x1000 mod 0x40, 0x80 + n div 0x40 mod 0x40,
         0x80 + n mod 0x40])"

definition escape :: "int \<Rightarrow> jsstring" where
  "escape n = concat (map percent (utf8 n))"

definition code_point :: "code_unit \<Rightarrow> code_unit \<Rightarrow> int" where
  \<comment> \<open>The code point of a surrogate pair.\<close>
  "code_point u v = 0x10000 + (code u - 0xD800) * 0x400 + (code v - 0xDC00)"

fun percent_encode :: "jsstring \<Rightarrow> jsstring" where
  "percent_encode [] = []"
| "percent_encode [u] = (if uri_unreserved u then [u] else escape (code u))"
| "percent_encode (u # v # us) =
     (if uri_unreserved u then u # percent_encode (v # us)
      else if is_high u \<and> is_low v then escape (code_point u v) @ percent_encode us
      else escape (code u) @ percent_encode (v # us))"

datatype js_error = SyntaxError | TypeError | RangeError | URIError | NetworkError

definition encodeURIComponent :: "jsstring \<Rightarrow> js_error + jsstring" where
  \<comment> \<open>A lone surrogate makes the call throw; \<open>percent_encode\<close> is read on well-formed
      strings only.\<close>
  "encodeURIComponent s = (if well_formed s then Inr (percent_encode s) else Inl URIError)"

text \<open>
  \<^verbatim>\<open>response.text()\<close> and \<^verbatim>\<open>searchParams.get\<close> decode bytes, and what they return has
  no lone surrogate: such a string is a \<open>USVString\<close>, and \<open>units\<close> are its code units.
\<close>

typedef USVString = "{s :: jsstring. well_formed s}"
  morphisms units USVString_of
  by (rule exI [of _ "[]"]) simp

definition usv :: "string \<Rightarrow> USVString" where
  "usv s = USVString_of (utf16 s)"

section \<open>JSON values\<close>

text \<open>
  What \<^verbatim>\<open>request.json()\<close> and \<^verbatim>\<open>response.json()\<close> return. A number is kept as the
  text JavaScript prints for it (\<open>''5''\<close>, \<open>''129.16''\<close>): the handlers only test such a
  value for truth and print it. \<open>JObj\<close> lists the object's own properties. A string
  of a JSON text may hold lone surrogates (written as escapes).
\<close>

datatype json =
    JNull
  | JBool bool
  | JNum string
  | JStr jsstring
  | JArr "json list"
  | JObj "(jsstring \<times> json) list"

fun truthy :: "json \<Rightarrow> bool" where
  "truthy JNull = False"
| "truthy (JBool b) = b"
| "truthy (JNum t) = (t \<noteq> ''0'')"
| "truthy (JStr s) = (s \<noteq> [])"
| "truthy (JArr xs) = True"
| "truthy (JObj kvs) = True"

definition truthy_opt :: "json option \<Rightarrow> bool" where
  \<comment> \<open>\<open>None\<close> is \<^verbatim>\<open>undefined\<close>.\<close>
  "truthy_opt v = (case v of None \<Rightarrow> False | Some x \<Rightarrow> truthy x)"

fun join :: "(js_error + jsstring) list \<Rightarrow> js_error + jsstring" where
  \<comment> \<open>\<^verbatim>\<open>Array.prototype.join\<close> with a comma; the first element that throws ends it.\<close>
  "join [] = Inr []"
| "join (Inl e # rs) = Inl e"
| "join [Inr s] = Inr s"
| "join (Inr s # r # rs) =
     (case join (r # rs) of Inl e \<Rightarrow> Inl e | Inr t \<Rightarrow> Inr (s @ utf16 '','' @ t))"

text \<open>
  The conversion of a value to a string, as a template literal and
  \<^verbatim>\<open>encodeURIComponent\<close> apply it. An array joins its elements, \<^verbatim>\<open>null\<close> among them
  giving the empty string. An object of a JSON text is printed by the inherited
  \<^verbatim>\<open>toString\<close>; an own property of that name is no function, and then the conversion
  throws.
\<close>

fun ToString :: "json \<Rightarrow> js_error + jsstring" where
  "ToString JNull = Inr (utf16 ''null'')"
| "ToString (JBool b) = Inr (if b then utf16 ''true'' else utf16 ''false'')"
| "ToString (JNum t) = Inr (utf16 t)"
| "ToString (JStr s) = Inr s"
| "ToString (JArr xs) = join (map (\<lambda>x. if x = JNull then Inr [] else ToString x) xs)"
| "ToString (JObj kvs) =
     (if map_of kvs (utf16 ''toString'') = None then Inr (utf16 ''[object Object]'')
      else Inl TypeError)"

text \<open>
  \<^verbatim>\<open>v.k\<close> for the keys \<open>name\<close>, \<open>smiles\<close> and \<open>stdinchi\<close>, which no prototype
  defines: an object yields its own property, any other value but \<^verbatim>\<open>null\<close> yields
  \<^verbatim>\<open>undefined\<close> (\<open>None\<close>), and reading a property of \<^verbatim>\<open>null\<close> throws.
\<close>

fun field :: "json \<Rightarrow> jsstring \<Rightarrow> json option" where
  "field (JObj kvs) k = map_of kvs k"
| "field v k = None"

definition member :: "json \<Rightarrow> jsstring \<Rightarrow> js_error + json option" where
  "member v k = (if v = JNull then Inl TypeError else Inr (field v k))"

text \<open>
  \<^verbatim>\<open>obj[key]\<close> with a key the caller chooses, on an object literal: beside the
  literal's own properties, the members every object inherits from \<^verbatim>\<open>Object.prototype\<close>
  are found (functions, and the prototype itself under \<^verbatim>\<open>__proto__\<close>).
\<close>

datatype 'a property = Own 'a | Inherited_function | Inherited_prototype | Undefined

definition Object_prototype_functions :: "jsstring list" where
  "Object_prototype_functions =
     map utf16
       [''constructor'', ''hasOwnProperty'', ''isPrototypeOf'', ''propertyIsEnumerable'',
        ''toLocaleString'', ''toString'', ''valueOf'', ''__defineGetter__'',
        ''__defineSetter__'', ''__lookupGetter__'', ''__lookupSetter__'']"

definition get_property :: "(jsstring \<times> 'a) list \<Rightarrow> jsstring \<Rightarrow> 'a property" where
  "get_property obj k =
     (case map_of obj k of
        Some v \<Rightarrow> Own v
      | None \<Rightarrow>
          if k \<in> set Object_prototype_functions then Inherited_function
          else if k = utf16 ''__proto__'' then Inherited_prototype
          else Undefined)"

section \<open>Upstream requests and the handlers' responses\<close>

text \<open>
  \<^verbatim>\<open>fetch(url, {headers})\<close> is the environment: a function from the call to its outcome.
  The promise is rejected (a transport error) or resolved with a response, of which the
  handlers read \<^verbatim>\<open>ok\<close>, \<^verbatim>\<open>status\<close>, \<^verbatim>\<open>statusText\<close>, \<^verbatim>\<open>text()\<close> and \<^verbatim>\<open>json()\<close>; the
  last two are \<open>None\<close> when reading or parsing the body throws.
\<close>

type_synonym fetch_call = "jsstring \<times> (string \<times> string) list"

record upstream_response =
  status :: nat
  statusText :: string
  body_text :: "USVString option"
  body_json :: "json option"

datatype fetch_outcome = Rejected | Resolved upstream_response

type_synonym fetch = "fetch_call \<Rightarrow> fetch_outcome"

definition ok :: "upstream_response \<Rightarrow> bool" where
  "ok r \<longleftrightarrow> 200 \<le> status r \<and> status r \<le> 299"

record MoleculeResolveResponse =
  source :: jsstring
  name :: jsstring
  cid :: "int option"
  smiles :: "json option"
  inchi :: "json option"
  sdf3d_url :: "jsstring option"
  molecular_formula :: "jsstring option"
  molecular_weight :: "rat option"

text \<open>
  \<open>smiles\<close> and \<open>inchi\<close> are declared \<^verbatim>\<open>string\<close>, but the OPSIN step stores there
  what the reply holds, and the reply is of type \<^verbatim>\<open>any\<close>: they carry a JSON value.
  A field that is \<^verbatim>\<open>undefined\<close> is \<open>None\<close>; \<^verbatim>\<open>NextResponse.json\<close> leaves it out.
\<close>

datatype body =
    Identity MoleculeResolveResponse
  | Error_object jsstring
  | Empty_object
  | Text jsstring

record NextResponse =
  res_status :: nat
  res_headers :: "(string \<times> string) list"
  res_body :: body

text \<open>
  \<^verbatim>\<open>NextResponse.json(body, {status})\<close> builds a response with a JSON body. It throws a
  \<^verbatim>\<open>RangeError\<close> for a status outside \<open>200\<close> to \<open>599\<close>, and a \<^verbatim>\<open>TypeError\<close> for a
  status that admits no body (\<open>204\<close>, \<open>205\<close>, \<open>304\<close>). Without a status it answers
  \<open>200\<close>.
\<close>

definition json_response :: "body \<Rightarrow> nat \<Rightarrow> NextResponse" where
  "json_response b st =
     \<lparr>res_status = st, res_headers = [(''content-type'', ''application/json'')], res_body = b\<rparr>"

definition NextResponse_json :: "body \<Rightarrow> nat \<Rightarrow> js_error + NextResponse" where
  "NextResponse_json b st =
     (if st < 200 \<or> 599 < st then Inl RangeError
      else if st \<in> {204, 205, 304} then Inl TypeError
      else Inr (json_response b st))"

definition catch :: "js_error + 'a option \<Rightarrow> 'a option" where
  \<comment> \<open>\<^verbatim>\<open>try { ... return ... } catch (error) { console.error(...) }\<close> around one step:
      an exception is logged and the step has no result.\<close>
  "catch r = (case r of Inl e \<Rightarrow> None | Inr v \<Rightarrow> v)"

section \<open>The resolution chain: \<^verbatim>\<open>POST /api/molecule/resolve\<close>\<close>

definition COMPOUND_NAME_MAPPINGS :: "(jsstring \<times> jsstring) list" where
  "COMPOUND_NAME_MAPPINGS =
    [(utf16 ''Metformin'', utf16 ''metformin''),
     (utf16 ''Nefazodone'', utf16 ''nefazodone''),
     (utf16 ''Troglitazone'', utf16 ''troglitazone''),
     (utf16 ''Aspirin'', utf16 ''aspirin''),
     (utf16 ''Atorvastatin'', utf16 ''atorvastatin''),
     (utf16 ''Lisinopril'', utf16 ''lisinopril''),
     (utf16 ''Ketoconazole'', utf16 ''ketoconazole''),
     (utf16 ''Diclofenac'', utf16 ''diclofenac''),
     (utf16 ''Amiodarone'', utf16 ''amiodarone''),
     (utf16 ''Warfarin'', utf16 ''warfarin''),
     (utf16 ''Phenytoin'', utf16 ''phenytoin''),
     (utf16 ''Carbamazepine'', utf16 ''carbamazepine''),
     (utf16 ''Valproic Acid'', utf16 ''valproic acid''),
     (utf16 ''Ibuprofen'', utf16 ''ibuprofen''),
     (utf16 ''Acetaminophen'', utf16 ''acetaminophen''),
     (utf16 ''Simvastatin'', utf16 ''simvastatin''),
     (utf16 ''Lovastatin'', utf16 ''lovastatin''),
     (utf16 ''Pravastatin'', utf16 ''pravastatin''),
     (utf16 ''Rosuvastatin'', utf16 ''rosuvastatin''),
     (utf16 ''Fluvastatin'', utf16 ''fluvastatin'')]"

definition knownCompounds :: "(jsstring \<times> MoleculeResolveResponse) list" where
  "knownCompounds =
    [(utf16 ''Metformin'',
      \<lparr>source = utf16 ''pubchem'', name = utf16 ''Metformin'', cid = Some 4091,
       smiles = Some (JStr (utf16 ''CN(C)C(=N)NC(=N)N'')),
       inchi = Some (JStr (utf16 ''InChI=1S/C4H11N5/c1-9(2)4(7)8-3(5)6/h1-2H3,(H5,5,6,7,8)'')),
       sdf3d_url = Some (utf16 ''/api/molecule/sdf?cid=4091''),
       molecular_formula = Some (utf16 ''C4H11N5''), molecular_weight = Some 129.16\<rparr>),
     (utf16 ''Aspirin'',
      \<lparr>source = utf16 ''pubchem'', name = utf16 ''Aspirin'', cid = Some 2244,
       smiles = Some (JStr (utf16 ''CC(=O)OC1=CC=CC=C1C(=O)O'')),
       inchi = Some (JStr (utf16 ''InChI=1S/C9H8O4/c1-6(10)13-8-5-3-2-4-7(8)9(11)12/h2-5H,1H3,(H,11,12)'')),
       sdf3d_url = Some (utf16 ''/api/molecule/sdf?cid=2244''),
       molecular_formula = Some (utf16 ''C9H8O4''), molecular_weight = Some 180.16\<rparr>),
     (utf16 ''Atorvastatin'',
      \<lparr>source = utf16 ''pubchem'', name = utf16 ''Atorvastatin'', cid = Some 60823,
       smiles = Some (JStr (utf16 ''CC(C)C1=C(C(=C(N1CC[C@H](C[C@H](CC(=O)O)O)O)C2=CC=C(C=C2)F)C3=CC=CC=C3)C(=O)NC4=CC=CC=C4'')),
       inchi = Some (JStr (utf16 ''InChI=1S/C33H35FN2O5/c1-21(2)31-30(33(41)35-25-11-7-4-8-12-25)29(23-9-5-3-6-10-23)32(22-13-15-24(34)16-14-22)36(31)18-17-26(37)19-27(38)20-28(39)40/h3-16,21,26-27,37-38H,17-20H2,1-2H3,(H,35,41)(H,39,40)/t26-,27-/m1/s1'')),
       sdf3d_url = Some (utf16 ''/api/molecule/sdf?cid=60823''),
       molecular_formula = Some (utf16 ''C33H35FN2O5''), molecular_weight = Some 558.64\<rparr>),
     (utf16 ''Nefazodone'',
      \<lparr>source = utf16 ''pubchem'', name = utf16 ''Nefazodone'', cid = Some 4449,
       smiles = Some (JStr (utf16 ''CCN1CCN(CC1)C2=CC=C(C=C2)OCC3=CC=CC=C3C(=O)N4CCN(CC4)C5=NC=CC=N5'')),
       inchi = Some (JStr (utf16 ''InChI=1S/C25H32ClN5O2/c1-2-29-13-17-31(18-14-29)22-7-9-23(10-8-22)33-19-21-5-3-4-6-24(21)25(32)30-15-11-28(12-16-30)26-20-27/h3-10,20H,2,11-19H2,1H3'')),
       sdf3d_url = Some (utf16 ''/api/molecule/sdf?cid=4449''),
       molecular_formula = Some (utf16 ''C25H32ClN5O2''), molecular_weight = Some 470.01\<rparr>),
     (utf16 ''Troglitazone'',
      \<lparr>source = utf16 ''pubchem'', name = utf16 ''Troglitazone'', cid = Some 5591,
       smiles = Some (JStr (utf16 ''CC1=C(C(=C(C=C1)O)CC2C(=O)NC(=O)S2)C3CCC(CC3)(C)C'')),
       inchi = Some (JStr (utf16 ''InChI=1S/C24H27NO5S/c1-14-11-17(26)16(12-18-20(27)25-21(28)31-18)15(14)19-7-9-24(2,3)10-8-19/h11-12,18-19,26H,7-10H2,1-3H3,(H,25,27,28)/t18-/m1/s1'')),
       sdf3d_url = Some (utf16 ''/api/molecule/sdf?cid=5591''),
       molecular_formula = Some (utf16 ''C24H27NO5S''), molecular_weight = Some 441.54\<rparr>),
     (utf16 ''Lisinopril'',
      \<lparr>source = utf16 ''pubchem'', name = utf16 ''Lisinopril'', cid = Some 5362119,
       smiles = Some (JStr (utf16 ''CCCCN1CCCC1C(=O)N[C@@H](CCc2ccccc2)C(=O)N3CCC[C@H]3C(=O)O'')),
       inchi = Some (JStr (utf16 ''InChI=1S/C21H31N3O5/c1-2-3-12-24-13-7-11-18(24)20(26)22-16(14-15-8-5-4-6-9-15)19(25)23-17-10-7-13-24(17)21(27)28/h4-6,8-9,16-18H,2-3,7,10-14H2,1H3,(H,22,26)(H,23,25)(H,27,28)/t16-,17-,18+/m0/s1'')),
       sdf3d_url = Some (utf16 ''/api/molecule/sdf?cid=5362119''),
       molecular_formula = Some (utf16 ''C21H31N3O5''), molecular_weight = Some 405.49\<rparr>),
     (utf16 ''Orfanglipron'',
      \<lparr>source = utf16 ''pubchem'', name = utf16 ''Orfanglipron'', cid = Some 155903239,
       smiles = Some (JStr (utf16 ''CC(C)(C)OC(=O)N[C@@H](CC1=CC=CC=C1)C(=O)N[C@@H](CC2=CC=C(C=C2)F)C(=O)N[C@@H](CC(C)C)C(=O)N3CCC[C@H]3C(=O)O'')),
       inchi = Some (JStr (utf16 ''InChI=1S/C32H43FN4O7/c1-20(2)17-25(29(40)37-16-8-9-26(37)30(41)42)35-28(39)24(18-22-12-14-23(33)15-13-22)34-27(38)21(19-11-6-5-7-10-21)36-31(43)44-32(3,4)5/h5-7,10,12-15,20,24-26H,8-9,11,16-19H2,1-4H3,(H,34,38)(H,35,39)(H,36,43)(H,41,42)/t24-,25-,26-/m0/s1'')),
       sdf3d_url = Some (utf16 ''/api/molecule/sdf?cid=155903239''),
       molecular_formula = Some (utf16 ''C32H43FN4O7''), molecular_weight = Some 614.71\<rparr>)]"

definition lookup_headers :: "(string \<times> string) list" where
  "lookup_headers = [(''User-Agent'', ''AxiomGFX/1.0 (https://axiomgfx.com)'')]"

definition originalName_of :: "json option \<Rightarrow> js_error + jsstring" where
  \<comment> \<open>\<^verbatim>\<open>const body = await request.json(); const originalName = body.name.trim();\<close>
      The body is \<open>None\<close> when it is not JSON. \<^verbatim>\<open>trim\<close> is a method of strings only:
      on any other value the call throws.\<close>
  "originalName_of b =
     (case b of
        None \<Rightarrow> Inl SyntaxError
      | Some d \<Rightarrow>
          (case member d (utf16 ''name'') of
             Inl e \<Rightarrow> Inl e
           | Inr (Some (JStr s)) \<Rightarrow> Inr (trim s)
           | Inr _ \<Rightarrow> Inl TypeError))"

text \<open>
  \<^verbatim>\<open>String.prototype.toLowerCase\<close> follows the case tables of Unicode, which are no part
  of the repository: the mapping is a parameter of the handler, \<open>toLowerCase\<close>.
\<close>

definition normalized :: "(jsstring \<Rightarrow> jsstring) \<Rightarrow> jsstring \<Rightarrow> jsstring" where
  \<comment> \<open>\<^verbatim>\<open>const name = COMPOUND_NAME_MAPPINGS[originalName] || originalName.toLowerCase();\<close>
      It is used only after the lookup in \<open>knownCompounds\<close> found nothing, where
      \<open>originalName\<close> names no inherited member either.\<close>
  "normalized toLowerCase originalName =
     (case map_of COMPOUND_NAME_MAPPINGS originalName of
        Some m \<Rightarrow> m
      | None \<Rightarrow> toLowerCase originalName)"

definition opsin_call :: "jsstring \<Rightarrow> js_error + fetch_call" where
  "opsin_call nm =
     (case encodeURIComponent nm of
        Inl e \<Rightarrow> Inl e
      | Inr enc \<Rightarrow>
          Inr (utf16 ''https://opsin.ch.cam.ac.uk/opsin/'' @ enc @ utf16 ''.json'',
               lookup_headers))"

definition cir_call :: "jsstring \<Rightarrow> js_error + fetch_call" where
  "cir_call nm =
     (case encodeURIComponent nm of
        Inl e \<Rightarrow> Inl e
      | Inr enc \<Rightarrow>
          Inr (utf16 ''https://cactus.nci.nih.gov/chemical/structure/'' @ enc
                 @ utf16 ''/smiles'', lookup_headers))"

definition calls_of :: "js_error + fetch_call \<Rightarrow> fetch_call list" where
  \<comment> \<open>The request a step makes: none when building its URL throws.\<close>
  "calls_of c = (case c of Inl e \<Rightarrow> [] | Inr call \<Rightarrow> [call])"

definition smiles_url :: "jsstring \<Rightarrow> jsstring" where
  "smiles_url enc = utf16 ''/api/molecule/sdf?smiles='' @ enc @ utf16 ''&get3d=true''"

definition opsin_step ::
  "fetch \<Rightarrow> jsstring \<Rightarrow> jsstring \<Rightarrow> js_error + MoleculeResolveResponse option" where
  \<comment> \<open>The body of the \<^verbatim>\<open>try\<close> of ``Step 2: Try OPSIN fallback''.\<close>
  "opsin_step fetch originalName nm =
     (case opsin_call nm of
        Inl e \<Rightarrow> Inl e
      | Inr call \<Rightarrow>
     (case fetch call of
        Rejected \<Rightarrow> Inl NetworkError
      | Resolved opsinResponse \<Rightarrow>
          if ok opsinResponse then
            (case body_json opsinResponse of
               None \<Rightarrow> Inl SyntaxError
             | Some opsinData \<Rightarrow>
                 (case member opsinData (utf16 ''smiles'') of
                    Inl e \<Rightarrow> Inl e
                  | Inr None \<Rightarrow> Inr None
                  | Inr (Some sm) \<Rightarrow>
                      if truthy sm then
                        (case ToString sm of
                           Inl e \<Rightarrow> Inl e
                         | Inr printed \<Rightarrow>
                        (case encodeURIComponent printed of
                           Inl e \<Rightarrow> Inl e
                         | Inr enc \<Rightarrow>
                             Inr (Some
                               \<lparr>source = utf16 ''opsin'', name = originalName, cid = None,
                                smiles = Some sm,
                                inchi = field opsinData (utf16 ''stdinchi''),
                                sdf3d_url = Some (smiles_url enc),
                                molecular_formula = None, molecular_weight = None\<rparr>)))
                      else Inr None))
          else Inr None))"

definition cir_step ::
  "fetch \<Rightarrow> jsstring \<Rightarrow> jsstring \<Rightarrow> js_error + MoleculeResolveResponse option" where
  \<comment> \<open>The body of the \<^verbatim>\<open>try\<close> of ``Step 3: Try NIH CIR fallback''.\<close>
  "cir_step fetch originalName nm =
     (case cir_call nm of
        Inl e \<Rightarrow> Inl e
      | Inr call \<Rightarrow>
     (case fetch call of
        Rejected \<Rightarrow> Inl NetworkError
      | Resolved cirResponse \<Rightarrow>
          if ok cirResponse then
            (case body_text cirResponse of
               None \<Rightarrow> Inl NetworkError
             | Some t \<Rightarrow>
                 (let sm = units t in
                  if sm \<noteq> [] \<and> trim sm \<noteq> [] \<and> \<not> string_includes sm (utf16 ''Error'') then
                    (case encodeURIComponent (trim sm) of
                       Inl e \<Rightarrow> Inl e
                     | Inr enc \<Rightarrow>
                         Inr (Some
                           \<lparr>source = utf16 ''cir'', name = originalName, cid = None,
                            smiles = Some (JStr (trim sm)),
                            inchi = None,
                            sdf3d_url = Some (smiles_url enc),
                            molecular_formula = None, molecular_weight = None\<rparr>))
                  else Inr None))
          else Inr None))"

definition mockResult :: "jsstring \<Rightarrow> MoleculeResolveResponse" where
  \<comment> \<open>\<^verbatim>\<open>encodeURIComponent("CCO")\<close>: the literal has no surrogate, the call returns.\<close>
  "mockResult originalName =
     \<lparr>source = utf16 ''mock'', name = originalName, cid = None,
      smiles = Some (JStr (utf16 ''CCO'')),
      inchi = None,
      sdf3d_url = Some (smiles_url (percent_encode (utf16 ''CCO''))),
      molecular_formula = Some (utf16 ''C2H6O''), molecular_weight = Some 46.07\<rparr>"

definition resolve_failed :: NextResponse where
  \<comment> \<open>The answer of the handler's own \<^verbatim>\<open>catch\<close>; the status \<open>500\<close> is accepted.\<close>
  "resolve_failed = json_response (Error_object (utf16 ''Failed to resolve molecule'')) 500"

text \<open>
  The handler returns its response; the model returns with it the list of the \<^verbatim>\<open>fetch\<close>
  calls made, in order. \<open>POST_try\<close> is the body of the handler's \<^verbatim>\<open>try\<close>, \<open>POST\<close> adds
  its \<^verbatim>\<open>catch\<close>. The PubChem step (``Step 1'') is commented out in the source, so the
  chain has no such step. A hit of the lookup in \<open>knownCompounds\<close> on an inherited member
  hands that member to \<^verbatim>\<open>NextResponse.json\<close>: a function has no JSON text, which throws,
  and the prototype is the empty object.
\<close>

definition POST_try ::
  "(jsstring \<Rightarrow> jsstring) \<Rightarrow> fetch \<Rightarrow> json option
     \<Rightarrow> (js_error + NextResponse) \<times> fetch_call list" where
  "POST_try toLowerCase fetch b =
     (case originalName_of b of
        Inl e \<Rightarrow> (Inl e, [])
      | Inr originalName \<Rightarrow>
          (case get_property knownCompounds originalName of
             Own known \<Rightarrow> (NextResponse_json (Identity known) 200, [])
           | Inherited_function \<Rightarrow> (Inl TypeError, [])
           | Inherited_prototype \<Rightarrow> (NextResponse_json Empty_object 200, [])
           | Undefined \<Rightarrow>
               (let nm = normalized toLowerCase originalName;
                    to_opsin = calls_of (opsin_call nm);
                    to_cir = calls_of (cir_call nm) in
                case catch (opsin_step fetch originalName nm) of
                  Some result \<Rightarrow> (NextResponse_json (Identity result) 200, to_opsin)
                | None \<Rightarrow>
                    (case catch (cir_step fetch originalName nm) of
                       Some result \<Rightarrow>
                         (NextResponse_json (Identity result) 200, to_opsin @ to_cir)
                     | None \<Rightarrow>
                         (NextResponse_json (Identity (mockResult originalName)) 200,
                          to_opsin @ to_cir)))))"

definition POST ::
  "(jsstring \<Rightarrow> jsstring) \<Rightarrow> fetch \<Rightarrow> json option \<Rightarrow> NextResponse \<times> fetch_call list" where
  "POST toLowerCase fetch b =
     (case POST_try toLowerCase fetch b of
        (Inl e, calls) \<Rightarrow> (resolve_failed, calls)
      | (Inr response, calls) \<Rightarrow> (response, calls))"

definition identity_of :: "NextResponse \<times> fetch_call list \<Rightarrow> MoleculeResolveResponse option" where
  \<comment> \<open>The identity a caller reads from the handler's answer, if it holds one.\<close>
  "identity_of out = (case res_body (fst out) of Identity r \<Rightarrow> Some r | _ \<Rightarrow> None)"

section \<open>The structure file proxy: \<^verbatim>\<open>GET /api/molecule/sdf\<close>\<close>

record searchParams =
  cid_param :: "USVString option"
  smiles_param :: "USVString option"
  get3d_param :: "USVString option"

text \<open>
  \<^verbatim>\<open>searchParams.get\<close> gives \<^verbatim>\<open>null\<close> (\<open>None\<close>) or a string. Both \<^verbatim>\<open>null\<close> and the
  empty string are false in a condition; in a template literal and as an argument of
  \<^verbatim>\<open>encodeURIComponent\<close>, \<^verbatim>\<open>null\<close> reads \<open>null\<close>.
\<close>

definition given :: "USVString option \<Rightarrow> bool" where
  "given p = (case p of None \<Rightarrow> False | Some t \<Rightarrow> units t \<noteq> [])"

definition text_of :: "USVString option \<Rightarrow> jsstring" where
  "text_of p = (case p of None \<Rightarrow> utf16 ''null'' | Some t \<Rightarrow> units t)"

definition is_true :: "USVString option \<Rightarrow> bool" where
  \<comment> \<open>\<^verbatim>\<open>get3d === 'true'\<close>\<close>
  "is_true p = (case p of None \<Rightarrow> False | Some t \<Rightarrow> units t = utf16 ''true'')"

definition sdf_headers :: "(string \<times> string) list" where
  "sdf_headers =
     [(''User-Agent'', ''AxiomGFX/1.0 (https://axiomgfx.com)''),
      (''Accept'', ''chemical/x-mdl-sdfile,text/plain,*/*'')]"

definition pubchem_sdf_call :: "jsstring \<Rightarrow> fetch_call" where
  "pubchem_sdf_call c =
     (utf16 ''https://pubchem.ncbi.nlm.nih.gov/rest/pug/compound/cid/'' @ c
        @ utf16 ''/record/SDF?record_type=3d'', sdf_headers)"

definition cactus_call :: "jsstring \<Rightarrow> bool \<Rightarrow> fetch_call" where
  \<comment> \<open>\<open>enc\<close> is the descriptor, encoded (\<^verbatim>\<open>id\<close> in the source).\<close>
  "cactus_call enc want3d =
     (utf16 ''https://cactus.nci.nih.gov/chemical/structure/'' @ enc @ utf16 ''/sdf''
        @ (if want3d then utf16 ''?get3d=true'' else []), sdf_headers)"

definition alt_call :: "jsstring \<Rightarrow> bool \<Rightarrow> fetch_call" where
  "alt_call enc want3d =
     (utf16 ''https://cactus.nci.nih.gov/chemical/structure/'' @ enc
        @ utf16 ''/file?format=sdf'' @ (if want3d then utf16 ''&get3d=true'' else []),
      sdf_headers)"

definition sdf_response :: "jsstring \<Rightarrow> NextResponse" where
  \<comment> \<open>\<^verbatim>\<open>new NextResponse(sdfData, {status: 200, headers: ...})\<close>\<close>
  "sdf_response sdfData =
     \<lparr>res_status = 200,
      res_headers =
        [(''Content-Type'', ''chemical/x-mdl-sdfile''),
         (''Access-Control-Allow-Origin'', ''*''),
         (''Access-Control-Allow-Methods'', ''GET''),
         (''Access-Control-Allow-Headers'', ''Content-Type'')],
      res_body = Text sdfData\<rparr>"

definition sdf_failed :: NextResponse where
  \<comment> \<open>The answer of the handler's own \<^verbatim>\<open>catch\<close>.\<close>
  "sdf_failed = json_response (Error_object (utf16 ''Failed to fetch SDF data'')) 500"

definition GET_try ::
  "fetch \<Rightarrow> searchParams \<Rightarrow> (js_error + NextResponse) \<times> fetch_call list" where
  "GET_try fetch q =
     (let cid = cid_param q; smiles = smiles_param q; get3d = get3d_param q in
      if \<not> given cid \<and> \<not> given smiles then
        (NextResponse_json (Error_object (utf16 ''cid or smiles parameter required'')) 400, [])
      else if given cid then
        (let call = pubchem_sdf_call (text_of cid) in
         case fetch call of
           Rejected \<Rightarrow> (Inl NetworkError, [call])
         | Resolved response \<Rightarrow>
             if \<not> ok response then
               (NextResponse_json
                  (Error_object (utf16 ''Failed to fetch SDF: '' @ utf16 (statusText response)))
                  (status response), [call])
             else
               (case body_text response of
                  None \<Rightarrow> (Inl NetworkError, [call])
                | Some sdfData \<Rightarrow> (Inr (sdf_response (units sdfData)), [call])))
      else if given smiles then
        (case encodeURIComponent (text_of smiles) of
           Inl e \<Rightarrow> (Inl e, [])
         | Inr enc \<Rightarrow>
        (let want3d = is_true get3d;
             call = cactus_call enc want3d;
             alt = alt_call enc want3d in
         case fetch call of
           Rejected \<Rightarrow> (Inl NetworkError, [call])
         | Resolved first \<Rightarrow>
             (case (if \<not> ok first then fetch alt else Resolved first) of
                Rejected \<Rightarrow> (Inl NetworkError, [call, alt])
              | Resolved response \<Rightarrow>
                  (let calls = (if \<not> ok first then [call, alt] else [call]) in
                   if \<not> ok response then
                     (NextResponse_json
                        (Error_object (utf16 ''Failed to fetch SDF from Cactus: ''
                           @ utf16 (statusText response)))
                        (status response), calls)
                   else
                     (case body_text response of
                        None \<Rightarrow> (Inl NetworkError, calls)
                      | Some sdfData \<Rightarrow> (Inr (sdf_response (units sdfData)), calls))))))
      else (NextResponse_json (Error_object (utf16 ''Unhandled request'')) 400, []))"

definition GET :: "fetch \<Rightarrow> searchParams \<Rightarrow> NextResponse \<times> fetch_call list" where
  "GET fetch q =
     (case GET_try fetch q of
        (Inl e, calls) \<Rightarrow> (sdf_failed, calls)
      | (Inr response, calls) \<Rightarrow> (response, calls))"

section \<open>Upstream behaviour, as the specification words it\<close>

text \<open>
  The conditions under which the specification calls a provider failed or successful,
  stated on the environment alone. Provider B is OPSIN, Provider C is the NIH CIR service,
  the placeholder is the \<open>mock\<close> result. A provider fails when no request can be made
  for the name, by a transport error, by a status outside \<open>200\<close> to \<open>299\<close>, by a body
  that cannot be read, or by a missing (or empty) required field.
\<close>

definition provider_B_fails :: "fetch \<Rightarrow> jsstring \<Rightarrow> bool" where
  "provider_B_fails fetch nm \<longleftrightarrow>
     (case opsin_call nm of
        Inl e \<Rightarrow> True
      | Inr call \<Rightarrow>
     (case fetch call of
        Rejected \<Rightarrow> True
      | Resolved r \<Rightarrow>
          \<not> ok r \<or>
          (case body_json r of
             None \<Rightarrow> True
           | Some d \<Rightarrow> d = JNull \<or> \<not> truthy_opt (field d (utf16 ''smiles'')))))"

definition provider_C_smiles :: "fetch \<Rightarrow> jsstring \<Rightarrow> jsstring option" where
  \<comment> \<open>The trimmed body of a successful reply, when it is not empty and does not contain
      the error marker.\<close>
  "provider_C_smiles fetch nm =
     (case cir_call nm of
        Inl e \<Rightarrow> None
      | Inr call \<Rightarrow>
     (case fetch call of
        Rejected \<Rightarrow> None
      | Resolved r \<Rightarrow>
          if ok r then
            (case body_text r of
               None \<Rightarrow> None
             | Some b \<Rightarrow>
                 if trim (units b) \<noteq> [] \<and> \<not> string_includes (trim (units b)) (utf16 ''Error'')
                 then Some (trim (units b))
                 else None)
          else None))"

definition provider_C_fails :: "fetch \<Rightarrow> jsstring \<Rightarrow> bool" where
  "provider_C_fails fetch nm \<longleftrightarrow> provider_C_smiles fetch nm = None"

section \<open>Example environments\<close>

definition ascii_lower :: "jsstring \<Rightarrow> jsstring" where
  \<comment> \<open>\<^verbatim>\<open>toLowerCase\<close> as it acts on the letters \<open>A\<close> to \<open>Z\<close>: what the case tables give for
      the names of the examples.\<close>
  "ascii_lower s =
     map (\<lambda>u. if 0x41 \<le> code u \<and> code u \<le> 0x5A
              then Code_unit (high u) (char_of (of_char (low u) + (0x20 :: int))) else u) s"

definition reply :: "nat \<Rightarrow> string \<Rightarrow> upstream_response" where
  "reply st t = \<lparr>status = st, statusText = t, body_text = None, body_json = None\<rparr>"

definition request :: "jsstring \<Rightarrow> json option" where
  \<comment> \<open>The body \<^verbatim>\<open>{"name": n}\<close>.\<close>
  "request n = Some (JObj [(utf16 ''name'', JStr n)])"

definition answers_ok :: "fetch \<Rightarrow> js_error + fetch_call \<Rightarrow> bool" where
  \<comment> \<open>The call is made and answered, with a success status.\<close>
  "answers_ok fetch c =
     (case c of
        Inl e \<Rightarrow> False
      | Inr call \<Rightarrow> (case fetch call of Rejected \<Rightarrow> False | Resolved r \<Rightarrow> ok r))"

definition all_down :: fetch where
  \<comment> \<open>No upstream can be reached.\<close>
  "all_down c = Rejected"

text \<open>The two calls of the PubChem step, as the commented-out code builds them.\<close>

definition pubchem_cids_call :: "jsstring \<Rightarrow> js_error + fetch_call" where
  "pubchem_cids_call nm =
     (case encodeURIComponent nm of
        Inl e \<Rightarrow> Inl e
      | Inr enc \<Rightarrow>
          Inr (utf16 ''https://pubchem.ncbi.nlm.nih.gov/rest/pug/compound/name/'' @ enc
                 @ utf16 ''/cids/JSON'', lookup_headers))"

definition pubchem_props_call :: "jsstring \<Rightarrow> js_error + fetch_call" where
  "pubchem_props_call c =
     Inr (utf16 ''https://pubchem.ncbi.nlm.nih.gov/rest/pug/compound/cid/'' @ c
            @ utf16 ''/property/IsomericSMILES,InChI,InChIKey,MolecularFormula,MolecularWeight/JSON'',
          lookup_headers)"

definition pubchem_up :: fetch where
  \<comment> \<open>PubChem knows caffeine, by id and by properties; OPSIN and CIR answer \<open>404\<close>.\<close>
  "pubchem_up c =
     (if Inr c = pubchem_cids_call (utf16 ''caffeine'') then
        Resolved ((reply 200 ''OK'')\<lparr>body_json :=
          Some (JObj [(utf16 ''IdentifierList'',
                       JObj [(utf16 ''CID'', JArr [JNum ''2519''])])])\<rparr>)
      else if Inr c = pubchem_props_call (utf16 ''2519'') then
        Resolved ((reply 200 ''OK'')\<lparr>body_json :=
          Some (JObj [(utf16 ''PropertyTable'', JObj [(utf16 ''Properties'', JArr [JObj
            [(utf16 ''CID'', JNum ''2519''),
             (utf16 ''MolecularFormula'', JStr (utf16 ''C8H10N4O2'')),
             (utf16 ''MolecularWeight'', JStr (utf16 ''194.19'')),
             (utf16 ''IsomericSMILES'', JStr (utf16 ''CN1C=NC2=C1C(=O)N(C(=O)N2C)C'')),
             (utf16 ''InChI'', JStr (utf16
                ''InChI=1S/C8H10N4O2/c1-10-4-9-6-5(10)7(13)12(3)8(14)11(6)2/h4H,1-3H3'')),
             (utf16 ''InChIKey'', JStr (utf16 ''RYYVLZVUVIJVGH-UHFFFAOYSA-N''))]])])])\<rparr>)
      else Resolved (reply 404 ''Not Found''))"

definition opsin_ethanol :: "(jsstring \<times> json) list" where
  \<comment> \<open>The reply of OPSIN for ethanol.\<close>
  "opsin_ethanol =
     [(utf16 ''status'', JStr (utf16 ''SUCCESS'')),
      (utf16 ''smiles'', JStr (utf16 ''CCO'')),
      (utf16 ''stdinchi'', JStr (utf16 ''InChI=1S/C2H6O/c1-2-3/h3H,2H2,1H3'')),
      (utf16 ''stdinchikey'', JStr (utf16 ''LFQSCWFLJHTTHZ-UHFFFAOYSA-N''))]"

definition opsin_up :: fetch where
  \<comment> \<open>PubChem answers \<open>404\<close>, OPSIN translates ethanol, CIR cannot be reached.\<close>
  "opsin_up c =
     (if Inr c = opsin_call (utf16 ''ethanol'') then
        Resolved ((reply 200 ''OK'')\<lparr>body_json := Some (JObj opsin_ethanol)\<rparr>)
      else if Inr c = cir_call (utf16 ''ethanol'') then Rejected
      else Resolved (reply 404 ''Not Found''))"

definition opsin_only :: fetch where
  \<comment> \<open>As \<open>opsin_up\<close> for the OPSIN request for ethanol; nothing else can be reached.\<close>
  "opsin_only c = (if Inr c = opsin_call (utf16 ''ethanol'') then opsin_up c else Rejected)"

definition opsin_surrogate :: fetch where
  \<comment> \<open>OPSIN answers with a SMILES that ends in a lone surrogate (the JSON text
      \<^verbatim>\<open>{"smiles": "CCO\ud800"}\<close>); nothing else can be reached.\<close>
  "opsin_surrogate c =
     (if Inr c = opsin_call (utf16 ''ethanol'') then
        Resolved ((reply 200 ''OK'')\<lparr>body_json :=
          Some (JObj [(utf16 ''smiles'', JStr (utf16 ''CCO'' @ [Code_unit (CHR 0xD8) (CHR 0x00)]))])\<rparr>)
      else Rejected)"

definition cir_up :: fetch where
  \<comment> \<open>Only CIR answers, with the SMILES and a line end.\<close>
  "cir_up c =
     (if Inr c = cir_call (utf16 ''ethanol'') then
        Resolved ((reply 200 ''OK'')\<lparr>body_text := Some (usv (''CCO'' @ [CHR 0x0A]))\<rparr>)
      else Resolved (reply 404 ''Not Found''))"

definition sdf_up :: fetch where
  \<comment> \<open>A stub upstream for the record of compound \<open>4091\<close>.\<close>
  "sdf_up c =
     (if c = pubchem_sdf_call (utf16 ''4091'') then
        Resolved ((reply 200 ''OK'')\<lparr>body_text := Some (usv ''mock-sdf-content'')\<rparr>)
      else Resolved ((reply 404 ''Not Found'')\<lparr>body_text := Some (usv ''not found'')\<rparr>))"

definition not_modified :: fetch where
  \<comment> \<open>Every upstream answers \<open>304\<close>.\<close>
  "not_modified c = Resolved (reply 304 ''Not Modified'')"

definition alt_up :: fetch where
  \<comment> \<open>The primary Cactus endpoint answers \<open>404\<close>, the alternate one \<open>200\<close>.\<close>
  "alt_up c =
     (if c = alt_call (utf16 ''CCO'') True then
        Resolved ((reply 200 ''OK'')\<lparr>body_text := Some (usv ''alt-sdf-content'')\<rparr>)
      else Resolved ((reply 404 ''Not Found'')\<lparr>body_text := Some (usv ''not found'')\<rparr>))"

definition cactus_down :: fetch where
  \<comment> \<open>Both Cactus endpoints fail: \<open>404\<close>, then \<open>503\<close>.\<close>
  "cactus_down c =
     (if c = alt_call (utf16 ''CCO'') True then Resolved (reply 503 ''Service Unavailable'')
      else Resolved (reply 404 ''Not Found''))"

definition alt_not_modified :: fetch where
  \<comment> \<open>The primary Cactus endpoint answers \<open>404\<close>, the alternate one \<open>304\<close>.\<close>
  "alt_not_modified c =
     (if c = alt_call (utf16 ''CCO'') True then Resolved (reply 304 ''Not Modified'')
      else Resolved (reply 404 ''Not Found''))"

definition primary_rejected :: fetch where
  \<comment> \<open>The primary Cactus endpoint cannot be reached; the alternate one would answer.\<close>
  "primary_rejected c =
     (if c = cactus_call (utf16 ''CCO'') True then Rejected
      else Resolved ((reply 200 ''OK'')\<lparr>body_text := Some (usv ''alt-sdf-content'')\<rparr>))"

section \<open>Facts about the string functions and the catalog\<close>

lemma of_char_int_bound: "(of_char c :: int) < 256"
proof -
  have "(of_char c :: int) = int (of_char c)"
    by (rule of_nat_of_char [symmetric])
  also have "\<dots> < 256"
    using nat_of_char_less_256 [of c] by linarith
  finally show ?thesis .
qed

lemma code_literal: "code (Code_unit (CHR 0x00) c) < 256"
  by (simp add: code_def of_char_int_bound)

lemma literal_plain:
  "\<not> is_high (Code_unit (CHR 0x00) c)" "\<not> is_low (Code_unit (CHR 0x00) c)"
  using code_literal [of c] by (simp_all add: is_high_def is_low_def)

lemma well_formed_plain:
  "\<not> is_high u \<Longrightarrow> \<not> is_low u \<Longrightarrow> well_formed (u # us) = well_formed us"
  by (cases us) simp_all

lemma well_formed_utf16 [simp]: "well_formed (utf16 s)"
  by (induction s) (simp_all add: utf16_def well_formed_plain literal_plain)

lemma units_usv [simp]: "units (usv s) = utf16 s"
  by (simp add: usv_def USVString_of_inverse)

lemma USVString_of_units [code abstype]: "USVString_of (units t) = t"
  by (rule units_inverse)

lemma units_usv_code [code abstract]: "units (usv s) = utf16 s"
  by simp

lemma well_formed_units [simp]: "well_formed (units t)"
  using units [of t] by simp

lemma white_space_plain: "is_white_space u \<Longrightarrow> \<not> is_high u \<and> \<not> is_low u"
  by (auto simp: is_white_space_def is_high_def is_low_def)

lemma well_formed_snoc_plain:
  "\<not> is_high x \<Longrightarrow> \<not> is_low x \<Longrightarrow> well_formed (us @ [x]) = well_formed us"
  by (induction us rule: well_formed.induct) auto

lemma well_formed_dropWhile:
  "well_formed s \<Longrightarrow> well_formed (dropWhile is_white_space s)"
  by (induction s) (auto simp: well_formed_plain dest: white_space_plain)

lemma well_formed_drop_end:
  "well_formed s \<Longrightarrow> well_formed (rev (dropWhile is_white_space (rev s)))"
  by (induction s rule: rev_induct) (auto simp: well_formed_snoc_plain dest: white_space_plain)

text \<open>Trimming a string without lone surrogates leaves none.\<close>

lemma well_formed_trim: "well_formed s \<Longrightarrow> well_formed (trim s)"
  by (simp add: trim_def well_formed_dropWhile well_formed_drop_end)

lemma encodeURIComponent_well_formed:
  "well_formed s \<Longrightarrow> encodeURIComponent s = Inr (percent_encode s)"
  by (simp add: encodeURIComponent_def)

lemma trim_Nil: "trim [] = []"
  by (simp add: trim_def)

lemma sublist_dropWhile_keep:
  assumes "sublist t s" and "t \<noteq> []" and "\<not> P (hd t)"
  shows "sublist t (dropWhile P s)"
  using assms
proof (induction s)
  case Nil
  then show ?case by simp
next
  case (Cons a s)
  from Cons.prems(1) consider "prefix t (a # s)" | "sublist t s"
    by (auto simp: sublist_Cons_right)
  then show ?case
  proof cases
    case 1
    with Cons.prems(2) have "hd t = a"
      by (cases t) auto
    with Cons.prems(3) have "dropWhile P (a # s) = a # s"
      by simp
    with 1 show ?thesis
      by simp
  next
    case 2
    show ?thesis
    proof (cases "P a")
      case True
      with 2 Cons show ?thesis by simp
    next
      case False
      with 2 show ?thesis by (simp add: sublist_Cons_right)
    qed
  qed
qed

lemma sublist_dropWhile_iff:
  assumes "t \<noteq> []" and "\<not> P (hd t)"
  shows "sublist t (dropWhile P s) \<longleftrightarrow> sublist t s"
proof
  assume "sublist t (dropWhile P s)"
  then obtain ps ss where "dropWhile P s = ps @ t @ ss"
    by (auto simp: sublist_def)
  then have "s = (takeWhile P s @ ps) @ t @ ss"
    by (metis append_assoc takeWhile_dropWhile_id)
  then show "sublist t s"
    unfolding sublist_def by blast
next
  assume "sublist t s"
  with assms show "sublist t (dropWhile P s)"
    by (simp add: sublist_dropWhile_keep)
qed

text \<open>A run that neither starts nor ends with white space survives trimming.\<close>

lemma sublist_trim_iff:
  assumes "t \<noteq> []" and "\<not> is_white_space (hd t)" and "\<not> is_white_space (last t)"
  shows "sublist t (trim s) \<longleftrightarrow> sublist t s"
proof -
  have "sublist t (trim s) \<longleftrightarrow>
          sublist (rev t) (dropWhile is_white_space (rev (dropWhile is_white_space s)))"
    by (simp add: trim_def sublist_rev_right)
  also have "\<dots> \<longleftrightarrow> sublist (rev t) (rev (dropWhile is_white_space s))"
    using assms by (intro sublist_dropWhile_iff) (simp_all add: hd_rev)
  also have "\<dots> \<longleftrightarrow> sublist t (dropWhile is_white_space s)"
    by simp
  also have "\<dots> \<longleftrightarrow> sublist t s"
    using assms by (intro sublist_dropWhile_iff)
  finally show ?thesis .
qed

lemma Error_ends:
  "utf16 ''Error'' \<noteq> []" "\<not> is_white_space (hd (utf16 ''Error''))"
  "\<not> is_white_space (last (utf16 ''Error''))"
  by code_simp+

text \<open>The source tests the untrimmed body for the marker; trimming makes no difference.\<close>

lemma includes_Error_trim:
  "string_includes (trim s) (utf16 ''Error'') \<longleftrightarrow> string_includes s (utf16 ''Error'')"
  unfolding string_includes_def
  by (rule sublist_trim_iff) (rule Error_ends)+

lemma catalog_keys:
  "map fst knownCompounds =
     map utf16 [''Metformin'', ''Aspirin'', ''Atorvastatin'', ''Nefazodone'', ''Troglitazone'',
      ''Lisinopril'', ''Orfanglipron'']"
  by (simp add: knownCompounds_def)

lemma trim_keys:
  "\<forall>k \<in> set (map utf16 [''Metformin'', ''Aspirin'', ''Atorvastatin'', ''Nefazodone'',
      ''Troglitazone'', ''Lisinopril'', ''Orfanglipron'']). trim k = k"
  by code_simp

lemma trim_catalog_key:
  assumes "map_of knownCompounds n = Some e"
  shows "trim n = n"
proof -
  from assms have "n \<in> set (map fst knownCompounds)"
    by (metis map_of_SomeD set_zip_leftD zip_map_fst_snd)
  with trim_keys show ?thesis
    unfolding catalog_keys by blast
qed

lemma catalog_sources: "\<forall>e \<in> set (map snd knownCompounds). source e = utf16 ''pubchem''"
  by (simp add: knownCompounds_def)

lemma catalog_source:
  assumes "map_of knownCompounds n = Some e"
  shows "source e = utf16 ''pubchem''"
proof -
  from assms have "e \<in> set (map snd knownCompounds)"
    by (metis map_of_SomeD set_zip_rightD zip_map_fst_snd)
  with catalog_sources show ?thesis by blast
qed

section \<open>The steps of the chain\<close>

lemma member_JObj [simp]: "member (JObj kvs) k = Inr (map_of kvs k)"
  by (simp add: member_def)

lemma member_JNull [simp]: "member JNull k = Inl TypeError"
  by (simp add: member_def)

lemma NextResponse_json_200 [simp]: "NextResponse_json b 200 = Inr (json_response b 200)"
  by (simp add: NextResponse_json_def)

lemma NextResponse_json_400 [simp]: "NextResponse_json b 400 = Inr (json_response b 400)"
  by (simp add: NextResponse_json_def)

lemma originalName_of_string:
  "member d (utf16 ''name'') = Inr (Some (JStr n)) \<Longrightarrow> originalName_of (Some d) = Inr (trim n)"
  by (simp add: originalName_of_def)

lemma opsin_step_fails:
  assumes "provider_B_fails fetch nm"
  shows "catch (opsin_step fetch originalName nm) = None"
proof (cases "opsin_call nm")
  case (Inl e)
  then show ?thesis
    by (simp add: opsin_step_def catch_def)
next
  case (Inr call)
  show ?thesis
  proof (cases "fetch call")
    case Rejected
    with Inr show ?thesis
      by (simp add: opsin_step_def catch_def)
  next
    case (Resolved r)
    with assms Inr have "\<not> ok r \<or> body_json r = None
        \<or> (\<exists>d. body_json r = Some d \<and> (d = JNull \<or> \<not> truthy_opt (field d (utf16 ''smiles''))))"
      by (auto simp: provider_B_fails_def split: option.splits)
    with Inr Resolved show ?thesis
      by (auto simp: opsin_step_def catch_def truthy_opt_def member_def split: option.splits)
  qed
qed

lemma cir_step_result:
  "catch (cir_step fetch originalName nm) =
     map_option
       (\<lambda>s. \<lparr>source = utf16 ''cir'', name = originalName, cid = None, smiles = Some (JStr s),
              inchi = None,
              sdf3d_url = Some (smiles_url (percent_encode s)),
              molecular_formula = None, molecular_weight = None\<rparr>)
       (provider_C_smiles fetch nm)"
  by (auto simp: cir_step_def provider_C_smiles_def catch_def includes_Error_trim trim_Nil
      Let_def encodeURIComponent_well_formed well_formed_trim
      split: fetch_outcome.splits option.splits sum.splits)

text \<open>Past the catalog, the handler is the chain of the two steps and the mock result.\<close>

lemma POST_chain:
  assumes "member d (utf16 ''name'') = Inr (Some (JStr n))"
    and "get_property knownCompounds (trim n) = Undefined"
  shows "POST toLowerCase fetch (Some d) =
     (case catch (opsin_step fetch (trim n) (normalized toLowerCase (trim n))) of
        Some result \<Rightarrow>
          (json_response (Identity result) 200,
           calls_of (opsin_call (normalized toLowerCase (trim n))))
      | None \<Rightarrow>
          (case catch (cir_step fetch (trim n) (normalized toLowerCase (trim n))) of
             Some result \<Rightarrow>
               (json_response (Identity result) 200,
                calls_of (opsin_call (normalized toLowerCase (trim n)))
                  @ calls_of (cir_call (normalized toLowerCase (trim n))))
           | None \<Rightarrow>
               (json_response (Identity (mockResult (trim n))) 200,
                calls_of (opsin_call (normalized toLowerCase (trim n)))
                  @ calls_of (cir_call (normalized toLowerCase (trim n))))))"
  using assms
  by (simp add: POST_def POST_try_def originalName_of_string Let_def split: option.splits)

lemma opsin_step_source:
  "catch (opsin_step fetch originalName nm) = Some r \<Longrightarrow> source r = utf16 ''opsin''"
  by (auto simp: opsin_step_def catch_def member_def
      split: fetch_outcome.splits option.splits sum.splits if_splits)

lemma cir_step_source:
  "catch (cir_step fetch originalName nm) = Some r \<Longrightarrow> source r = utf16 ''cir''"
  by (auto simp: cir_step_result)

lemma opsin_step_cong:
  "\<forall>c \<in> set (calls_of (opsin_call nm)). f c = g c \<Longrightarrow>
     opsin_step f originalName nm = opsin_step g originalName nm"
  by (simp add: opsin_step_def calls_of_def split: sum.splits)

lemma cir_step_cong:
  "\<forall>c \<in> set (calls_of (cir_call nm)). f c = g c \<Longrightarrow>
     cir_step f originalName nm = cir_step g originalName nm"
  by (simp add: cir_step_def calls_of_def split: sum.splits)

lemma not_pubchem_opsin:
  "c \<in> set (calls_of (opsin_call nm)) \<Longrightarrow>
     \<not> prefix (utf16 ''https://pubchem.ncbi.nlm.nih.gov'') (fst c)"
  by (auto simp: opsin_call_def calls_of_def utf16_def split: sum.splits)

lemma not_pubchem_cir:
  "c \<in> set (calls_of (cir_call nm)) \<Longrightarrow>
     \<not> prefix (utf16 ''https://pubchem.ncbi.nlm.nih.gov'') (fst c)"
  by (auto simp: cir_call_def calls_of_def utf16_def split: sum.splits)

text \<open>The answer depends on the environment only through the calls the handler makes.\<close>

lemma POST_try_agree:
  assumes "\<forall>c \<in> set (snd (POST_try l f b)). f c = g c"
  shows "POST_try l f b = POST_try l g b"
proof (cases "originalName_of b")
  case (Inl e)
  then show ?thesis by (simp add: POST_try_def)
next
  case (Inr originalName)
  show ?thesis
  proof (cases "get_property knownCompounds originalName")
    case Undefined
    let ?nm = "normalized l originalName"
    from assms Inr Undefined have "\<forall>c \<in> set (calls_of (opsin_call ?nm)). f c = g c"
      by (auto simp: POST_try_def Let_def split: option.splits)
    then have os: "opsin_step f originalName ?nm = opsin_step g originalName ?nm"
      by (rule opsin_step_cong)
    show ?thesis
    proof (cases "catch (opsin_step f originalName ?nm)")
      case (Some result)
      with Inr Undefined os show ?thesis
        by (simp add: POST_try_def Let_def)
    next
      case None
      with assms Inr Undefined have "\<forall>c \<in> set (calls_of (cir_call ?nm)). f c = g c"
        by (auto simp: POST_try_def Let_def split: option.splits)
      then have "cir_step f originalName ?nm = cir_step g originalName ?nm"
        by (rule cir_step_cong)
      with Inr Undefined os None show ?thesis
        by (simp add: POST_try_def Let_def)
    qed
  qed (simp_all add: POST_try_def Inr)
qed

lemma snd_POST: "snd (POST l f b) = snd (POST_try l f b)"
  by (simp add: POST_def split: prod.splits sum.splits)

lemma POST_agree:
  assumes "\<forall>c \<in> set (snd (POST l f b)). f c = g c"
  shows "POST l f b = POST l g b"
proof -
  from assms have "\<forall>c \<in> set (snd (POST_try l f b)). f c = g c"
    by (simp only: snd_POST)
  then have "POST_try l f b = POST_try l g b"
    by (rule POST_try_agree)
  then show ?thesis
    by (simp add: POST_def)
qed

lemma trim_example: "trim (utf16 ''  Unobtainium '') = utf16 ''Unobtainium''"
  by code_simp

lemma normalized_example:
  "normalized ascii_lower (utf16 ''Unobtainium'') = utf16 ''unobtainium''"
  by code_simp

lemma trim_caffeine: "trim (utf16 ''caffeine'') = utf16 ''caffeine''"
  by code_simp

lemma normalized_caffeine: "normalized ascii_lower (utf16 ''caffeine'') = utf16 ''caffeine''"
  by code_simp

lemma trim_ethanol: "trim (utf16 ''ethanol'') = utf16 ''ethanol''"
  by code_simp

lemma normalized_ethanol: "normalized ascii_lower (utf16 ''ethanol'') = utf16 ''ethanol''"
  by code_simp

lemma ethanol_not_known: "get_property knownCompounds (trim (utf16 ''ethanol'')) = Undefined"
  by code_simp

lemma opsin_call_ethanol:
  "opsin_call (utf16 ''ethanol'') =
     Inr (utf16 ''https://opsin.ch.cam.ac.uk/opsin/ethanol.json'', lookup_headers)"
  by code_simp

lemma cir_call_ethanol:
  "cir_call (utf16 ''ethanol'') =
     Inr (utf16 ''https://cactus.nci.nih.gov/chemical/structure/ethanol/smiles'',
          lookup_headers)"
  by code_simp

lemma encode_CCO: "percent_encode (utf16 ''CCO'') = utf16 ''CCO''"
  by code_simp

lemma smiles_url_CCO:
  "smiles_url (utf16 ''CCO'') = utf16 ''/api/molecule/sdf?smiles=CCO&get3d=true''"
  by code_simp

text \<open>
  Where the lookup in the catalog is \<^verbatim>\<open>undefined\<close> and both providers fail, the answer
  is the placeholder, for every case mapping and every environment.
\<close>

lemma POST_placeholder:
  assumes "member d (utf16 ''name'') = Inr (Some (JStr n))"
    and "get_property knownCompounds (trim n) = Undefined"
    and "provider_B_fails fetch (normalized toLowerCase (trim n))"
    and "provider_C_fails fetch (normalized toLowerCase (trim n))"
  shows "POST toLowerCase fetch (Some d) =
           (json_response (Identity (mockResult (trim n))) 200,
            calls_of (opsin_call (normalized toLowerCase (trim n)))
              @ calls_of (cir_call (normalized toLowerCase (trim n))))"
  using POST_chain [OF assms(1,2), of toLowerCase fetch] assms(3,4)
  by (simp add: opsin_step_fails cir_step_result provider_C_fails_def)

lemma POST_placeholder_example:
  "POST ascii_lower all_down (request (utf16 ''  Unobtainium '')) =
     (json_response (Identity
        \<lparr>source = utf16 ''mock'', name = utf16 ''Unobtainium'', cid = None,
         smiles = Some (JStr (utf16 ''CCO'')), inchi = None,
         sdf3d_url = Some (utf16 ''/api/molecule/sdf?smiles=CCO&get3d=true''),
         molecular_formula = Some (utf16 ''C2H6O''), molecular_weight = Some 46.07\<rparr>) 200,
      [(utf16 ''https://opsin.ch.cam.ac.uk/opsin/unobtainium.json'', lookup_headers),
       (utf16 ''https://cactus.nci.nih.gov/chemical/structure/unobtainium/smiles'',
        lookup_headers)])"
  by code_simp

text \<open>
  A SMILES of the OPSIN reply that holds a lone surrogate cannot be encoded: the step
  throws after its test of the field, and the chain goes on to CIR.
\<close>

lemma POST_lone_surrogate:
  "map_option source (identity_of (POST ascii_lower opsin_surrogate (request (utf16 ''ethanol''))))
     = Some (utf16 ''mock'')"
  by code_simp

section \<open>The resolution chain: claims\<close>

text \<open>
  Claim C1. For every name that the catalog does not hold, with every provider failing,
  the handler is to answer with the complete placeholder identity (source \<open>mock\<close>,
  SMILES \<open>CCO\<close>), never with a failure and never without an identity. The handler
  does so where its lookup \<^verbatim>\<open>knownCompounds[originalName]\<close> is \<^verbatim>\<open>undefined\<close>
  (\<open>POST_placeholder\<close>). It does not for a name that \<^verbatim>\<open>Object.prototype\<close> defines:
  the lookup finds the inherited member, and the chain is never reached. For
  \<open>constructor\<close>, which is no key of the catalog, with no upstream in reach, the answer
  is \<open>500\<close> with the error object; for \<open>__proto__\<close> it is \<open>200\<close> with the empty object.
  Neither answer holds an identity.
\<close>

theorem C1_inherited_name_not_placeholder:
  "map_of knownCompounds (utf16 ''constructor'') = None
   \<and> POST ascii_lower all_down (request (utf16 ''constructor'')) = (resolve_failed, [])
   \<and> res_status resolve_failed = 500
   \<and> res_body resolve_failed = Error_object (utf16 ''Failed to resolve molecule'')
   \<and> map_of knownCompounds (utf16 ''__proto__'') = None
   \<and> POST ascii_lower all_down (request (utf16 ''__proto__''))
       = (json_response Empty_object 200, [])
   \<and> identity_of (POST ascii_lower all_down (request (utf16 ''constructor''))) = None
   \<and> identity_of (POST ascii_lower all_down (request (utf16 ''__proto__''))) = None"
  by code_simp

text \<open>
  Claim C2 (amended). For every request whose name is exactly (case-sensitively) a key of
  the catalog, the handler answers \<open>200\<close> with that catalog entry as it is stored,
  whatever the environment does and without any upstream request. The entry's source
  field reads \<open>pubchem\<close>, which is the tag of Provider A: the catalog has no tag of its
  own.
\<close>

theorem C2_catalog_entry_returned:
  assumes "member d (utf16 ''name'') = Inr (Some (JStr n))"
    and "map_of knownCompounds n = Some e"
  shows "POST toLowerCase fetch (Some d) = (json_response (Identity e) 200, [])
         \<and> source e = utf16 ''pubchem''"
proof -
  from assms(2) have "trim n = n"
    by (rule trim_catalog_key)
  with assms(1) have "originalName_of (Some d) = Inr n"
    by (simp add: originalName_of_string)
  moreover from assms(2) have "get_property knownCompounds n = Own e"
    by (simp add: get_property_def)
  ultimately have "POST toLowerCase fetch (Some d) = (json_response (Identity e) 200, [])"
    by (simp add: POST_def POST_try_def)
  with catalog_source [OF assms(2)] show ?thesis
    by simp
qed

text \<open>
  The claim as worded asks for a source that says \<open>catalog\<close>. For \<open>Aspirin\<close>, with every
  upstream out of reach, the answer's source is \<open>pubchem\<close>.
\<close>

theorem C2_counterexample:
  "map_option source (identity_of (POST ascii_lower all_down (request (utf16 ''Aspirin''))))
     = Some (utf16 ''pubchem'')
   \<and> map_option source (identity_of (POST ascii_lower all_down (request (utf16 ''Aspirin''))))
     \<noteq> Some (utf16 ''catalog'')"
  by code_simp

theorem C2_witness:
  "member (JObj [(utf16 ''name'', JStr (utf16 ''Aspirin''))]) (utf16 ''name'')
     = Inr (Some (JStr (utf16 ''Aspirin'')))
   \<and> map_of knownCompounds (utf16 ''Aspirin'') =
       Some \<lparr>source = utf16 ''pubchem'', name = utf16 ''Aspirin'', cid = Some 2244,
             smiles = Some (JStr (utf16 ''CC(=O)OC1=CC=CC=C1C(=O)O'')),
             inchi = Some (JStr (utf16
               ''InChI=1S/C9H8O4/c1-6(10)13-8-5-3-2-4-7(8)9(11)12/h2-5H,1H3,(H,11,12)'')),
             sdf3d_url = Some (utf16 ''/api/molecule/sdf?cid=2244''),
             molecular_formula = Some (utf16 ''C9H8O4''), molecular_weight = Some 180.16\<rparr>
   \<and> POST ascii_lower all_down (Some (JObj [(utf16 ''name'', JStr (utf16 ''Aspirin''))])) =
       (json_response (Identity
          \<lparr>source = utf16 ''pubchem'', name = utf16 ''Aspirin'', cid = Some 2244,
           smiles = Some (JStr (utf16 ''CC(=O)OC1=CC=CC=C1C(=O)O'')),
           inchi = Some (JStr (utf16
             ''InChI=1S/C9H8O4/c1-6(10)13-8-5-3-2-4-7(8)9(11)12/h2-5H,1H3,(H,11,12)'')),
           sdf3d_url = Some (utf16 ''/api/molecule/sdf?cid=2244''),
           molecular_formula = Some (utf16 ''C9H8O4''), molecular_weight = Some 180.16\<rparr>) 200,
        [])"
proof -
  have h1: "member (JObj [(utf16 ''name'', JStr (utf16 ''Aspirin''))]) (utf16 ''name'')
              = Inr (Some (JStr (utf16 ''Aspirin'')))"
    by simp
  have h2: "map_of knownCompounds (utf16 ''Aspirin'') =
       Some \<lparr>source = utf16 ''pubchem'', name = utf16 ''Aspirin'', cid = Some 2244,
             smiles = Some (JStr (utf16 ''CC(=O)OC1=CC=CC=C1C(=O)O'')),
             inchi = Some (JStr (utf16
               ''InChI=1S/C9H8O4/c1-6(10)13-8-5-3-2-4-7(8)9(11)12/h2-5H,1H3,(H,11,12)'')),
             sdf3d_url = Some (utf16 ''/api/molecule/sdf?cid=2244''),
             molecular_formula = Some (utf16 ''C9H8O4''), molecular_weight = Some 180.16\<rparr>"
    by code_simp
  from C2_catalog_entry_returned [OF h1 h2, of ascii_lower all_down] h1 h2 show ?thesis
    by blast
qed

text \<open>
  Claim C3 (amended). For every request whose name the catalog lookup does not find,
  Provider A is not consulted: the PubChem step is commented out in the source. The
  handler's requests are the one to Provider B, followed or not by the one to
  Provider C; none goes to PubChem; the answer is the same whatever PubChem would
  reply; and the answer is an identity whose source is \<open>opsin\<close>, \<open>cir\<close> or \<open>mock\<close>,
  never \<open>pubchem\<close>.
\<close>

theorem C3_provider_A_not_consulted:
  assumes "member d (utf16 ''name'') = Inr (Some (JStr n))"
    and "get_property knownCompounds (trim n) = Undefined"
  shows "(snd (POST toLowerCase fetch (Some d))
            = calls_of (opsin_call (normalized toLowerCase (trim n)))
          \<or> snd (POST toLowerCase fetch (Some d)) =
               calls_of (opsin_call (normalized toLowerCase (trim n)))
                 @ calls_of (cir_call (normalized toLowerCase (trim n))))
         \<and> (\<forall>c \<in> set (snd (POST toLowerCase fetch (Some d))).
               \<not> prefix (utf16 ''https://pubchem.ncbi.nlm.nih.gov'') (fst c))
         \<and> (\<forall>g. (\<forall>c. \<not> prefix (utf16 ''https://pubchem.ncbi.nlm.nih.gov'') (fst c)
                     \<longrightarrow> fetch c = g c)
               \<longrightarrow> POST toLowerCase fetch (Some d) = POST toLowerCase g (Some d))
         \<and> (\<exists>r. identity_of (POST toLowerCase fetch (Some d)) = Some r
               \<and> source r \<in> {utf16 ''opsin'', utf16 ''cir'', utf16 ''mock''})"
proof -
  note chain = POST_chain [OF assms, of toLowerCase fetch]
  have calls: "snd (POST toLowerCase fetch (Some d))
            = calls_of (opsin_call (normalized toLowerCase (trim n)))
          \<or> snd (POST toLowerCase fetch (Some d)) =
               calls_of (opsin_call (normalized toLowerCase (trim n)))
                 @ calls_of (cir_call (normalized toLowerCase (trim n)))"
    by (simp add: chain split: option.splits)
  then have away: "\<forall>c \<in> set (snd (POST toLowerCase fetch (Some d))).
               \<not> prefix (utf16 ''https://pubchem.ncbi.nlm.nih.gov'') (fst c)"
    using not_pubchem_opsin not_pubchem_cir by (elim disjE) (simp_all, blast)
  have same: "POST toLowerCase fetch (Some d) = POST toLowerCase g (Some d)"
    if "\<forall>c. \<not> prefix (utf16 ''https://pubchem.ncbi.nlm.nih.gov'') (fst c) \<longrightarrow> fetch c = g c"
    for g
    using that away by (intro POST_agree) blast
  have "\<exists>r. identity_of (POST toLowerCase fetch (Some d)) = Some r
               \<and> source r \<in> {utf16 ''opsin'', utf16 ''cir'', utf16 ''mock''}"
    by (auto simp: chain identity_of_def json_response_def mockResult_def
        dest: opsin_step_source cir_step_source split: option.splits)
  with calls away same show ?thesis
    by blast
qed

text \<open>
  The claim as worded fails for \<open>caffeine\<close>: PubChem would return the id \<open>2519\<close> and its
  properties, yet the answer is the placeholder, after one request to OPSIN and one to
  CIR.
\<close>

theorem C3_counterexample:
  "get_property knownCompounds (trim (utf16 ''caffeine'')) = Undefined
   \<and> answers_ok pubchem_up (pubchem_cids_call (utf16 ''caffeine''))
   \<and> answers_ok pubchem_up (pubchem_props_call (utf16 ''2519''))
   \<and> map_option source (identity_of (POST ascii_lower pubchem_up (request (utf16 ''caffeine''))))
       = Some (utf16 ''mock'')
   \<and> map_option source (identity_of (POST ascii_lower pubchem_up (request (utf16 ''caffeine''))))
       \<noteq> Some (utf16 ''pubchem'')
   \<and> snd (POST ascii_lower pubchem_up (request (utf16 ''caffeine''))) =
       [(utf16 ''https://opsin.ch.cam.ac.uk/opsin/caffeine.json'', lookup_headers),
        (utf16 ''https://cactus.nci.nih.gov/chemical/structure/caffeine/smiles'',
         lookup_headers)]"
  by code_simp

theorem C3_witness:
  "member (JObj [(utf16 ''name'', JStr (utf16 ''caffeine''))]) (utf16 ''name'')
     = Inr (Some (JStr (utf16 ''caffeine'')))
   \<and> get_property knownCompounds (trim (utf16 ''caffeine'')) = Undefined
   \<and> (snd (POST ascii_lower pubchem_up (Some (JObj [(utf16 ''name'', JStr (utf16 ''caffeine''))])))
         = calls_of (opsin_call (utf16 ''caffeine''))
      \<or> snd (POST ascii_lower pubchem_up (Some (JObj [(utf16 ''name'', JStr (utf16 ''caffeine''))])))
         = calls_of (opsin_call (utf16 ''caffeine'')) @ calls_of (cir_call (utf16 ''caffeine'')))
   \<and> (\<exists>r. identity_of
             (POST ascii_lower pubchem_up (Some (JObj [(utf16 ''name'', JStr (utf16 ''caffeine''))])))
           = Some r
         \<and> source r \<in> {utf16 ''opsin'', utf16 ''cir'', utf16 ''mock''})"
proof -
  have h1: "member (JObj [(utf16 ''name'', JStr (utf16 ''caffeine''))]) (utf16 ''name'')
              = Inr (Some (JStr (utf16 ''caffeine'')))"
    by simp
  have h2: "get_property knownCompounds (trim (utf16 ''caffeine'')) = Undefined"
    by code_simp
  from C3_provider_A_not_consulted [OF h1 h2, of ascii_lower pubchem_up,
      unfolded trim_caffeine normalized_caffeine] h1 h2
  show ?thesis
    by blast
qed

text \<open>
  Claim C4 (amended). For every request whose name the catalog lookup does not find: if
  Provider B answers with a success status and a body whose \<open>smiles\<close> field is a
  non-empty string without a lone surrogate, the handler answers \<open>200\<close> with source
  \<open>opsin\<close>, that SMILES, no id, no molecular formula and no molecular weight, after
  the single request to Provider B. The InChI is the \<open>stdinchi\<close> field of the reply:
  it is unset only when the reply has no such field. Provider A is not consulted.
\<close>

theorem C4_provider_B_result:
  assumes "member d (utf16 ''name'') = Inr (Some (JStr n))"
    and "get_property knownCompounds (trim n) = Undefined"
    and "opsin_call (normalized toLowerCase (trim n)) = Inr call"
    and "fetch call = Resolved r"
    and "ok r"
    and "body_json r = Some (JObj kvs)"
    and "map_of kvs (utf16 ''smiles'') = Some (JStr s)"
    and "s \<noteq> []"
    and "well_formed s"
  shows "POST toLowerCase fetch (Some d) =
           (json_response (Identity
              \<lparr>source = utf16 ''opsin'', name = trim n, cid = None,
               smiles = Some (JStr s),
               inchi = map_of kvs (utf16 ''stdinchi''),
               sdf3d_url = Some (smiles_url (percent_encode s)),
               molecular_formula = None, molecular_weight = None\<rparr>) 200,
            [call])"
proof -
  have "catch (opsin_step fetch (trim n) (normalized toLowerCase (trim n))) =
          Some \<lparr>source = utf16 ''opsin'', name = trim n, cid = None,
               smiles = Some (JStr s),
               inchi = map_of kvs (utf16 ''stdinchi''),
               sdf3d_url = Some (smiles_url (percent_encode s)),
               molecular_formula = None, molecular_weight = None\<rparr>"
    using assms(3-9) by (simp add: opsin_step_def catch_def encodeURIComponent_well_formed)
  then show ?thesis
    using assms(3) by (simp add: POST_chain [OF assms(1,2)] calls_of_def)
qed

text \<open>
  The claim as worded leaves the InChI unset. For \<open>ethanol\<close>, with PubChem answering
  \<open>404\<close> and OPSIN answering as it does (SMILES and standard InChI), the answer's
  source is \<open>opsin\<close> and its InChI is set.
\<close>

theorem C4_counterexample:
  "get_property knownCompounds (trim (utf16 ''ethanol'')) = Undefined
   \<and> answers_ok opsin_up (pubchem_cids_call (utf16 ''ethanol'')) = False
   \<and> answers_ok opsin_up (opsin_call (utf16 ''ethanol''))
   \<and> map_option source (identity_of (POST ascii_lower opsin_up (request (utf16 ''ethanol''))))
       = Some (utf16 ''opsin'')
   \<and> map_option inchi (identity_of (POST ascii_lower opsin_up (request (utf16 ''ethanol''))))
       = Some (Some (JStr (utf16 ''InChI=1S/C2H6O/c1-2-3/h3H,2H2,1H3'')))
   \<and> map_option inchi (identity_of (POST ascii_lower opsin_up (request (utf16 ''ethanol''))))
       \<noteq> Some None"
  by code_simp

theorem C4_witness:
  "member (JObj [(utf16 ''name'', JStr (utf16 ''ethanol''))]) (utf16 ''name'')
     = Inr (Some (JStr (utf16 ''ethanol'')))
   \<and> get_property knownCompounds (trim (utf16 ''ethanol'')) = Undefined
   \<and> opsin_call (normalized ascii_lower (trim (utf16 ''ethanol''))) =
       Inr (utf16 ''https://opsin.ch.cam.ac.uk/opsin/ethanol.json'', lookup_headers)
   \<and> well_formed (utf16 ''CCO'')
   \<and> POST ascii_lower opsin_up (Some (JObj [(utf16 ''name'', JStr (utf16 ''ethanol''))])) =
       (json_response (Identity
          \<lparr>source = utf16 ''opsin'', name = utf16 ''ethanol'', cid = None,
           smiles = Some (JStr (utf16 ''CCO'')),
           inchi = Some (JStr (utf16 ''InChI=1S/C2H6O/c1-2-3/h3H,2H2,1H3'')),
           sdf3d_url = Some (utf16 ''/api/molecule/sdf?smiles=CCO&get3d=true''),
           molecular_formula = None, molecular_weight = None\<rparr>) 200,
        [(utf16 ''https://opsin.ch.cam.ac.uk/opsin/ethanol.json'', lookup_headers)])"
proof -
  let ?call = "(utf16 ''https://opsin.ch.cam.ac.uk/opsin/ethanol.json'', lookup_headers)"
  let ?r = "(reply 200 ''OK'')\<lparr>body_json := Some (JObj opsin_ethanol)\<rparr>"
  have h1: "member (JObj [(utf16 ''name'', JStr (utf16 ''ethanol''))]) (utf16 ''name'')
              = Inr (Some (JStr (utf16 ''ethanol'')))"
    by simp
  have h3: "opsin_call (normalized ascii_lower (trim (utf16 ''ethanol''))) = Inr ?call"
    by (simp only: trim_ethanol normalized_ethanol opsin_call_ethanol)
  have h4: "opsin_up ?call = Resolved ?r"
    by (simp add: opsin_up_def opsin_call_ethanol)
  have h5: "ok ?r"
    by (simp add: ok_def reply_def)
  have h6: "body_json ?r = Some (JObj opsin_ethanol)"
    by simp
  have h7: "map_of opsin_ethanol (utf16 ''smiles'') = Some (JStr (utf16 ''CCO''))"
    by code_simp
  have h8: "utf16 ''CCO'' \<noteq> []"
    by (simp add: utf16_def)
  have h9: "well_formed (utf16 ''CCO'')"
    by simp
  have inchi: "map_of opsin_ethanol (utf16 ''stdinchi'')
                 = Some (JStr (utf16 ''InChI=1S/C2H6O/c1-2-3/h3H,2H2,1H3''))"
    by code_simp
  from C4_provider_B_result [where fetch = opsin_up and toLowerCase = ascii_lower,
      OF h1 ethanol_not_known h3 h4 h5 h6 h7 h8 h9]
    h1 ethanol_not_known h3 h9
  show ?thesis
    by (simp only: trim_ethanol encode_CCO smiles_url_CCO inchi simp_thms)
qed

text \<open>
  Claim C5. Where the chain reaches Provider C (the catalog lookup finds nothing and
  Provider B fails), the step succeeds exactly when the reply has a success status and
  its body, trimmed, is not empty and does not contain the marker \<open>Error\<close>
  (\<open>provider_C_smiles\<close> is that trimmed body). On success the handler answers \<open>200\<close>
  with source \<open>cir\<close> and the trimmed body as SMILES; otherwise it answers with the
  placeholder.
\<close>

theorem C5_provider_C_step:
  assumes "member d (utf16 ''name'') = Inr (Some (JStr n))"
    and "get_property knownCompounds (trim n) = Undefined"
    and "provider_B_fails fetch (normalized toLowerCase (trim n))"
  shows "(catch (cir_step fetch (trim n) (normalized toLowerCase (trim n))) \<noteq> None
            \<longleftrightarrow> provider_C_smiles fetch (normalized toLowerCase (trim n)) \<noteq> None)
         \<and> POST toLowerCase fetch (Some d) =
           (case provider_C_smiles fetch (normalized toLowerCase (trim n)) of
              Some s \<Rightarrow>
                (json_response (Identity
                   \<lparr>source = utf16 ''cir'', name = trim n, cid = None,
                    smiles = Some (JStr s),
                    inchi = None,
                    sdf3d_url = Some (smiles_url (percent_encode s)),
                    molecular_formula = None, molecular_weight = None\<rparr>) 200,
                 calls_of (opsin_call (normalized toLowerCase (trim n)))
                   @ calls_of (cir_call (normalized toLowerCase (trim n))))
            | None \<Rightarrow>
                (json_response (Identity (mockResult (trim n))) 200,
                 calls_of (opsin_call (normalized toLowerCase (trim n)))
                   @ calls_of (cir_call (normalized toLowerCase (trim n)))))"
proof -
  have "catch (opsin_step fetch (trim n) (normalized toLowerCase (trim n))) = None"
    using assms(3) by (rule opsin_step_fails)
  then show ?thesis
    by (simp add: POST_chain [OF assms(1,2)] cir_step_result split: option.splits)
qed

theorem C5_witness:
  "member (JObj [(utf16 ''name'', JStr (utf16 ''ethanol''))]) (utf16 ''name'')
     = Inr (Some (JStr (utf16 ''ethanol'')))
   \<and> get_property knownCompounds (trim (utf16 ''ethanol'')) = Undefined
   \<and> provider_B_fails cir_up (normalized ascii_lower (trim (utf16 ''ethanol'')))
   \<and> provider_C_smiles cir_up (utf16 ''ethanol'') = Some (utf16 ''CCO'')
   \<and> POST ascii_lower cir_up (Some (JObj [(utf16 ''name'', JStr (utf16 ''ethanol''))])) =
       (json_response (Identity
          \<lparr>source = utf16 ''cir'', name = utf16 ''ethanol'', cid = None,
           smiles = Some (JStr (utf16 ''CCO'')),
           inchi = None,
           sdf3d_url = Some (utf16 ''/api/molecule/sdf?smiles=CCO&get3d=true''),
           molecular_formula = None, molecular_weight = None\<rparr>) 200,
        [(utf16 ''https://opsin.ch.cam.ac.uk/opsin/ethanol.json'', lookup_headers),
         (utf16 ''https://cactus.nci.nih.gov/chemical/structure/ethanol/smiles'',
          lookup_headers)])"
proof -
  have h1: "member (JObj [(utf16 ''name'', JStr (utf16 ''ethanol''))]) (utf16 ''name'')
              = Inr (Some (JStr (utf16 ''ethanol'')))"
    by simp
  have h3: "provider_B_fails cir_up (normalized ascii_lower (trim (utf16 ''ethanol'')))"
    by code_simp
  have sm: "provider_C_smiles cir_up (utf16 ''ethanol'') = Some (utf16 ''CCO'')"
    by code_simp
  from C5_provider_C_step [where fetch = cir_up and toLowerCase = ascii_lower,
      OF h1 ethanol_not_known h3]
    h1 ethanol_not_known h3
  show ?thesis
    by (simp add: trim_ethanol normalized_ethanol sm encode_CCO smiles_url_CCO
        opsin_call_ethanol cir_call_ethanol calls_of_def)
qed

text \<open>
  Claim C9. The chain is deterministic: the handler's answer is a function of the
  request and of the upstream replies at the steps it takes. Two environments that
  reply alike to every request the handler makes lead to the same answer and the same
  requests. The source draws no random number and reads no clock in this handler.
\<close>

theorem C9_deterministic:
  assumes "\<forall>c \<in> set (snd (POST toLowerCase f b)). f c = g c"
  shows "fst (POST toLowerCase f b) = fst (POST toLowerCase g b)
         \<and> snd (POST toLowerCase f b) = snd (POST toLowerCase g b)"
  using POST_agree [OF assms] by simp

theorem C9_witness:
  "snd (POST ascii_lower opsin_up (request (utf16 ''ethanol'')))
     = [(utf16 ''https://opsin.ch.cam.ac.uk/opsin/ethanol.json'', lookup_headers)]
   \<and> opsin_up (utf16 ''https://opsin.ch.cam.ac.uk/opsin/ethanol.json'', lookup_headers)
       = opsin_only (utf16 ''https://opsin.ch.cam.ac.uk/opsin/ethanol.json'', lookup_headers)
   \<and> opsin_up (utf16 ''https://example.org/'', []) \<noteq> opsin_only (utf16 ''https://example.org/'', [])
   \<and> fst (POST ascii_lower opsin_up (request (utf16 ''ethanol'')))
       = fst (POST ascii_lower opsin_only (request (utf16 ''ethanol'')))
   \<and> snd (POST ascii_lower opsin_up (request (utf16 ''ethanol'')))
       = snd (POST ascii_lower opsin_only (request (utf16 ''ethanol'')))"
proof -
  let ?call = "(utf16 ''https://opsin.ch.cam.ac.uk/opsin/ethanol.json'', lookup_headers)"
  have calls: "snd (POST ascii_lower opsin_up (request (utf16 ''ethanol''))) = [?call]"
    by code_simp
  have same: "opsin_up ?call = opsin_only ?call"
    by (simp add: opsin_only_def opsin_call_ethanol)
  have h: "\<forall>c \<in> set (snd (POST ascii_lower opsin_up (request (utf16 ''ethanol'')))).
             opsin_up c = opsin_only c"
    by (simp add: calls same)
  have d: "opsin_up (utf16 ''https://example.org/'', [])
             \<noteq> opsin_only (utf16 ''https://example.org/'', [])"
    by (simp add: opsin_up_def opsin_only_def opsin_call_ethanol cir_call_ethanol
        lookup_headers_def)
  from C9_deterministic [OF h] calls same d show ?thesis
    by blast
qed

text \<open>
  Claim C10. For every request whose body is not JSON, or is JSON without a string
  under \<open>name\<close>, nothing is resolved: no upstream request is made, the exception is
  caught by the handler's own \<^verbatim>\<open>catch\<close>, and the answer is \<open>500\<close> with the error
  object \<^verbatim>\<open>{error: 'Failed to resolve molecule'}\<close>.
\<close>

theorem C10_malformed_request:
  assumes "b = None
     \<or> (\<exists>d. b = Some d \<and> (\<forall>s. member d (utf16 ''name'') \<noteq> Inr (Some (JStr s))))"
  shows "POST toLowerCase fetch b = (resolve_failed, [])
         \<and> res_status resolve_failed = 500
         \<and> res_body resolve_failed = Error_object (utf16 ''Failed to resolve molecule'')"
proof -
  from assms have "\<exists>e. originalName_of b = Inl e"
    by (auto simp: originalName_of_def member_def
        split: sum.splits option.splits json.splits if_splits)
  then have "POST toLowerCase fetch b = (resolve_failed, [])"
    by (auto simp: POST_def POST_try_def)
  then show ?thesis
    by (simp add: resolve_failed_def json_response_def)
qed

theorem C10_witness:
  "(\<forall>s. member (JObj [(utf16 ''name'', JNum ''42'')]) (utf16 ''name'') \<noteq> Inr (Some (JStr s)))
   \<and> POST ascii_lower all_down (Some (JObj [(utf16 ''name'', JNum ''42'')])) = (resolve_failed, [])
   \<and> POST ascii_lower all_down None = (resolve_failed, [])
   \<and> res_status resolve_failed = 500
   \<and> res_body resolve_failed = Error_object (utf16 ''Failed to resolve molecule'')"
proof -
  have n: "\<forall>s. member (JObj [(utf16 ''name'', JNum ''42'')]) (utf16 ''name'')
             \<noteq> Inr (Some (JStr s))"
    by simp
  then have h: "Some (JObj [(utf16 ''name'', JNum ''42'')]) = None
      \<or> (\<exists>d. Some (JObj [(utf16 ''name'', JNum ''42'')]) = Some d
            \<and> (\<forall>s. member d (utf16 ''name'') \<noteq> Inr (Some (JStr s))))"
    by simp
  have k: "None = None \<or> (\<exists>d. None = Some d
            \<and> (\<forall>s. member d (utf16 ''name'') \<noteq> Inr (Some (JStr s))))"
    by simp
  from C10_malformed_request [OF h, of ascii_lower all_down]
    C10_malformed_request [OF k, of ascii_lower all_down] n
  show ?thesis
    by blast
qed

section \<open>The structure file proxy: claims\<close>

lemma given_usv: "given (Some (usv s)) \<longleftrightarrow> s \<noteq> []"
  by (simp add: given_def utf16_def)

lemma NextResponse_json_accepted:
  "200 \<le> st \<Longrightarrow> st \<le> 599 \<Longrightarrow> st \<notin> {204, 205, 304} \<Longrightarrow>
     NextResponse_json b st = Inr (json_response b st)"
  by (simp add: NextResponse_json_def)

text \<open>
  What the proxy does with an id, for every environment: one request, to PubChem's 3D
  record of that id as the query gives it; a success reply's body is returned as it is;
  any other status that a response with a body may carry is surfaced.
\<close>

lemma GET_cid_path:
  assumes "given (cid_param q)"
  shows "snd (GET fetch q) =
           [(utf16 ''https://pubchem.ncbi.nlm.nih.gov/rest/pug/compound/cid/''
               @ text_of (cid_param q) @ utf16 ''/record/SDF?record_type=3d'', sdf_headers)]"
    and "fetch (pubchem_sdf_call (text_of (cid_param q))) = Resolved r \<Longrightarrow> ok r \<Longrightarrow>
           body_text r = Some b \<Longrightarrow> fst (GET fetch q) = sdf_response (units b)"
    and "fetch (pubchem_sdf_call (text_of (cid_param q))) = Resolved r \<Longrightarrow> \<not> ok r \<Longrightarrow>
           200 \<le> status r \<Longrightarrow> status r \<le> 599 \<Longrightarrow> status r \<noteq> 304 \<Longrightarrow>
           fst (GET fetch q) =
             json_response
               (Error_object (utf16 ''Failed to fetch SDF: '' @ utf16 (statusText r)))
               (status r)"
proof -
  show "snd (GET fetch q) =
           [(utf16 ''https://pubchem.ncbi.nlm.nih.gov/rest/pug/compound/cid/''
               @ text_of (cid_param q) @ utf16 ''/record/SDF?record_type=3d'', sdf_headers)]"
    using assms
    by (simp add: GET_def GET_try_def Let_def pubchem_sdf_call_def
        split: fetch_outcome.splits option.splits sum.splits)
  show "fst (GET fetch q) = sdf_response (units b)"
    if "fetch (pubchem_sdf_call (text_of (cid_param q))) = Resolved r" "ok r"
      "body_text r = Some b"
    using that assms by (simp add: GET_def GET_try_def Let_def)
  show "fst (GET fetch q) =
          json_response
            (Error_object (utf16 ''Failed to fetch SDF: '' @ utf16 (statusText r))) (status r)"
    if "fetch (pubchem_sdf_call (text_of (cid_param q))) = Resolved r" "\<not> ok r"
      "200 \<le> status r" "status r \<le> 599" "status r \<noteq> 304"
    using that assms
    by (simp add: GET_def GET_try_def Let_def NextResponse_json_accepted ok_def)
qed

text \<open>
  What the proxy does with a descriptor and no id, when the primary endpoint answers
  with a status outside \<open>200\<close> to \<open>299\<close>: the alternate endpoint is asked, once; its
  success body is returned; any other status of its reply that a response with a body
  may carry is surfaced.
\<close>

lemma GET_alternate:
  assumes "\<not> given (cid_param q)" and "given (smiles_param q)"
    and "fetch (cactus_call (percent_encode (text_of (smiles_param q)))
           (is_true (get3d_param q))) = Resolved p"
    and "\<not> ok p"
  shows "snd (GET fetch q) =
           [cactus_call (percent_encode (text_of (smiles_param q))) (is_true (get3d_param q)),
            alt_call (percent_encode (text_of (smiles_param q))) (is_true (get3d_param q))]"
    and "fetch (alt_call (percent_encode (text_of (smiles_param q)))
           (is_true (get3d_param q))) = Resolved a \<Longrightarrow> ok a \<Longrightarrow>
           body_text a = Some b \<Longrightarrow> fst (GET fetch q) = sdf_response (units b)"
    and "fetch (alt_call (percent_encode (text_of (smiles_param q)))
           (is_true (get3d_param q))) = Resolved a \<Longrightarrow> \<not> ok a \<Longrightarrow>
           200 \<le> status a \<Longrightarrow> status a \<le> 599 \<Longrightarrow> status a \<noteq> 304 \<Longrightarrow>
           fst (GET fetch q) =
             json_response
               (Error_object (utf16 ''Failed to fetch SDF from Cactus: ''
                  @ utf16 (statusText a)))
               (status a)"
proof -
  from assms(2) have enc: "encodeURIComponent (text_of (smiles_param q))
      = Inr (percent_encode (text_of (smiles_param q)))"
    by (auto simp: given_def text_of_def encodeURIComponent_well_formed split: option.splits)
  let ?alt = "alt_call (percent_encode (text_of (smiles_param q))) (is_true (get3d_param q))"
  show "snd (GET fetch q) =
           [cactus_call (percent_encode (text_of (smiles_param q))) (is_true (get3d_param q)),
            ?alt]"
    using assms enc
    by (simp add: GET_def GET_try_def Let_def
        split: fetch_outcome.splits option.splits sum.splits)
  show "fst (GET fetch q) = sdf_response (units b)"
    if "fetch ?alt = Resolved a" "ok a" "body_text a = Some b"
    using that assms enc by (simp add: GET_def GET_try_def Let_def)
  show "fst (GET fetch q) =
          json_response
            (Error_object (utf16 ''Failed to fetch SDF from Cactus: '' @ utf16 (statusText a)))
            (status a)"
    if "fetch ?alt = Resolved a" "\<not> ok a" "200 \<le> status a" "status a \<le> 599"
      "status a \<noteq> 304"
    using that assms enc
    by (simp add: GET_def GET_try_def Let_def NextResponse_json_accepted ok_def)
qed

lemma GET_alternate_example:
  "GET alt_up \<lparr>cid_param = None, smiles_param = Some (usv ''CCO''),
               get3d_param = Some (usv ''true'')\<rparr> =
     (sdf_response (utf16 ''alt-sdf-content''),
      [(utf16 ''https://cactus.nci.nih.gov/chemical/structure/CCO/sdf?get3d=true'', sdf_headers),
       (utf16 ''https://cactus.nci.nih.gov/chemical/structure/CCO/file?format=sdf&get3d=true'',
        sdf_headers)])"
  by code_simp

lemma GET_cid_example:
  "GET sdf_up \<lparr>cid_param = Some (usv ''4091''), smiles_param = None, get3d_param = None\<rparr> =
     (sdf_response (utf16 ''mock-sdf-content''),
      [(utf16 ''https://pubchem.ncbi.nlm.nih.gov/rest/pug/compound/cid/4091/record/SDF?record_type=3d'',
        sdf_headers)])"
  by code_simp

text \<open>A primary endpoint out of reach ends the request: the alternate is not asked.\<close>

lemma GET_primary_rejected:
  "GET primary_rejected \<lparr>cid_param = None, smiles_param = Some (usv ''CCO''),
                          get3d_param = Some (usv ''true'')\<rparr> =
     (sdf_failed,
      [(utf16 ''https://cactus.nci.nih.gov/chemical/structure/CCO/sdf?get3d=true'',
        sdf_headers)])"
  by code_simp

text \<open>
  Claim C6. For every request to the proxy that supplies neither \<open>cid\<close> nor \<open>smiles\<close>
  (a parameter that is absent, or present and empty), the answer is \<open>400\<close> with an
  error object, and no upstream request is made.
\<close>

theorem C6_missing_parameters:
  assumes "\<not> given (cid_param q)" and "\<not> given (smiles_param q)"
  shows "GET fetch q =
           (json_response (Error_object (utf16 ''cid or smiles parameter required'')) 400, [])
         \<and> res_status (fst (GET fetch q)) = 400"
  using assms by (simp add: GET_def GET_try_def json_response_def)

theorem C6_witness:
  "\<not> given (cid_param
        \<lparr>cid_param = None, smiles_param = None, get3d_param = Some (usv ''true'')\<rparr>)
   \<and> \<not> given (smiles_param
         \<lparr>cid_param = None, smiles_param = None, get3d_param = Some (usv ''true'')\<rparr>)
   \<and> GET sdf_up \<lparr>cid_param = None, smiles_param = None, get3d_param = Some (usv ''true'')\<rparr> =
       (json_response (Error_object (utf16 ''cid or smiles parameter required'')) 400, [])"
proof -
  let ?q = "\<lparr>cid_param = None, smiles_param = None, get3d_param = Some (usv ''true'')\<rparr>"
  have h1: "\<not> given (cid_param ?q)"
    by (simp add: given_def)
  have h2: "\<not> given (smiles_param ?q)"
    by (simp add: given_def)
  from C6_missing_parameters [OF h1 h2, of sdf_up] h1 h2 show ?thesis
    by blast
qed

text \<open>
  Claim C7. For a request to the proxy that carries an id, one upstream request is to be
  made, to PubChem's 3D record of that id; a success reply's body is to be returned
  unchanged under \<open>200\<close> with the content type \<open>chemical/x-mdl-sdfile\<close>; any other
  upstream status is to be surfaced as the status of an error response. The handler
  does so for every status that a response with a body may carry (\<open>GET_cid_path\<close>,
  \<open>GET_cid_example\<close>). It does not for \<open>304\<close>: for the id \<open>4091\<close> and an upstream
  that replies \<open>304 Not Modified\<close>, \<^verbatim>\<open>NextResponse.json\<close> refuses the status, the
  exception reaches the handler's own \<^verbatim>\<open>catch\<close>, and the answer is \<open>500\<close>.
\<close>

theorem C7_not_modified_answers_500:
  "GET not_modified \<lparr>cid_param = Some (usv ''4091''), smiles_param = None, get3d_param = None\<rparr>
     = (sdf_failed,
        [(utf16 ''https://pubchem.ncbi.nlm.nih.gov/rest/pug/compound/cid/4091/record/SDF?record_type=3d'',
          sdf_headers)])
   \<and> answers_ok not_modified
        (Inr (utf16 ''https://pubchem.ncbi.nlm.nih.gov/rest/pug/compound/cid/4091/record/SDF?record_type=3d'',
              sdf_headers)) = False
   \<and> NextResponse_json (Error_object (utf16 ''Failed to fetch SDF: Not Modified'')) 304
       = Inl TypeError
   \<and> res_status sdf_failed = 500
   \<and> res_status sdf_failed \<noteq> 304
   \<and> res_body sdf_failed = Error_object (utf16 ''Failed to fetch SDF data'')"
  by code_simp

text \<open>
  Claim C8. For a request to the proxy that carries a structural descriptor, a failing
  primary endpoint is to be followed by exactly one request to the alternate endpoint;
  the alternate's success body is to be returned under \<open>200\<close>, and if the alternate
  fails too its status is to be surfaced. The handler does so when both replies carry a
  status that a response with a body may carry (\<open>GET_alternate\<close>,
  \<open>GET_alternate_example\<close>). It does not when the alternate replies \<open>304\<close>: for the
  descriptor \<open>CCO\<close>, a primary \<open>404\<close> and an alternate \<open>304 Not Modified\<close>, both
  endpoints are asked, \<^verbatim>\<open>NextResponse.json\<close> refuses the status, and the answer is
  \<open>500\<close>.
\<close>

theorem C8_alternate_not_modified_answers_500:
  "GET alt_not_modified \<lparr>cid_param = None, smiles_param = Some (usv ''CCO''),
                          get3d_param = Some (usv ''true'')\<rparr>
     = (sdf_failed,
        [(utf16 ''https://cactus.nci.nih.gov/chemical/structure/CCO/sdf?get3d=true'',
          sdf_headers),
         (utf16 ''https://cactus.nci.nih.gov/chemical/structure/CCO/file?format=sdf&get3d=true'',
          sdf_headers)])
   \<and> answers_ok alt_not_modified
        (Inr (utf16 ''https://cactus.nci.nih.gov/chemical/structure/CCO/sdf?get3d=true'',
              sdf_headers)) = False
   \<and> answers_ok alt_not_modified
        (Inr (utf16 ''https://cactus.nci.nih.gov/chemical/structure/CCO/file?format=sdf&get3d=true'',
              sdf_headers)) = False
   \<and> NextResponse_json
        (Error_object (utf16 ''Failed to fetch SDF from Cactus: Not Modified'')) 304
       = Inl TypeError
   \<and> res_status sdf_failed = 500
   \<and> res_status sdf_failed \<noteq> 304"
  by code_simp

end
